(* ===== verification/Prelude.thy ===== *)
theory Prelude
  imports
    Complex_Main
    "HOL-Library.Multiset"
    "HOL-Library.List_Lexorder"
    "HOL-Library.Char_ord"
    "HOL-Library.Product_Lexorder"
begin

text \<open>
  Shared vocabulary of the dashboard model. Strings are ordered by
  \<open>List_Lexorder\<close> over \<open>Char_ord\<close>: byte-wise lexicographic order on the UTF-8
  encoding, which is the code-point order Python's \<open>sorted\<close> uses on \<open>str\<close>.
  Tuples are ordered lexicographically (\<open>Product_Lexorder\<close>), as pandas orders
  multi-column group keys. Numeric columns are read as exact reals: the
  rounding of float64 sums is not modelled.

  The theory holds the index lookup used by \<open>pd.Categorical\<close>, the
  conditional column sum that every aggregation is measured against, and the
  facts on descending order shared by the pipelines.
\<close>

named_theorems modelo_simps "equations that evaluate the dashboard model on concrete tables"

type_synonym numero = real

subsection \<open>Position of a value in a list\<close>

text \<open>
  \<open>posicion x ys\<close> is the index of the first occurrence of \<open>x\<close> in \<open>ys\<close>, \<open>None\<close>
  when there is none: what pandas' \<open>Index.get_indexer\<close> computes when a
  categorical column maps its values to category codes (code \<open>-1\<close>, i.e. NaN,
  is \<open>None\<close>).
\<close>

primrec posicion :: "'a \<Rightarrow> 'a list \<Rightarrow> nat option" where
  "posicion x [] = None"
| "posicion x (y # ys) = (if x = y then Some 0 else map_option Suc (posicion x ys))"

declare posicion.simps [modelo_simps]

subsection \<open>Conditional column sums\<close>

text \<open>
  \<open>suma_donde P v rs\<close> is the sum of column \<open>v\<close> over the rows of \<open>rs\<close> that
  satisfy \<open>P\<close>: the brute-force reference against which the group-by
  aggregations are proved.
\<close>

definition suma_donde :: "('r \<Rightarrow> bool) \<Rightarrow> ('r \<Rightarrow> 'n::comm_monoid_add) \<Rightarrow> 'r list \<Rightarrow> 'n" where
  "suma_donde P v rs = sum_list (map v (filter P rs))"

declare suma_donde_def [modelo_simps]

subsection \<open>Lemmas on positions\<close>

lemma posicion_None_iff [simp]: "posicion x ys = None \<longleftrightarrow> x \<notin> set ys"
  by (induction ys) auto

lemma posicion_Some_iff:
  "posicion x ys = Some i \<longleftrightarrow> i < length ys \<and> ys ! i = x \<and> (\<forall>j<i. ys ! j \<noteq> x)"
proof (induction ys arbitrary: i)
  case Nil
  then show ?case by simp
next
  case (Cons y ys)
  show ?case
  proof (cases i)
    case 0
    then show ?thesis by auto
  next
    case (Suc k)
    have "(\<forall>j<Suc k. (y # ys) ! j \<noteq> x) \<longleftrightarrow> y \<noteq> x \<and> (\<forall>j<k. ys ! j \<noteq> x)"
      by (auto simp: less_Suc_eq_0_disj)
    with Cons.IH [of k] Suc show ?thesis by auto
  qed
qed

lemma posicion_nth:
  assumes "distinct ys" and "i < length ys"
  shows "posicion (ys ! i) ys = Some i"
  using assms by (auto simp: posicion_Some_iff nth_eq_iff_index_eq)

lemma posicion_less: "posicion x ys = Some i \<Longrightarrow> i < length ys"
  by (simp add: posicion_Some_iff)

subsection \<open>Lemmas on conditional sums\<close>

lemma suma_donde_Nil [simp]: "suma_donde P v [] = 0"
  by (simp add: suma_donde_def)

lemma suma_donde_Cons [simp]:
  "suma_donde P v (r # rs) = (if P r then v r + suma_donde P v rs else suma_donde P v rs)"
  by (simp add: suma_donde_def)

lemma suma_donde_append [simp]:
  "suma_donde P v (rs @ ss) = suma_donde P v rs + suma_donde P v ss"
  by (simp add: suma_donde_def)

lemma suma_donde_mset:
  "mset rs = mset ss \<Longrightarrow> suma_donde P v rs = suma_donde P v ss"
  unfolding suma_donde_def
  by (metis mset_filter mset_map sum_mset_sum_list)

lemma suma_donde_filter:
  "suma_donde P v (filter Q rs) = suma_donde (\<lambda>r. Q r \<and> P r) v rs"
  by (simp add: suma_donde_def conj_commute)

lemma suma_donde_cong:
  "(\<And>r. r \<in> set rs \<Longrightarrow> P r = Q r) \<Longrightarrow> suma_donde P v rs = suma_donde Q v rs"
  unfolding suma_donde_def by (metis filter_cong)

lemma suma_donde_False [simp]: "suma_donde (\<lambda>r. False) v rs = 0"
  by (simp add: suma_donde_def)

lemma suma_donde_none:
  "(\<And>r. r \<in> set rs \<Longrightarrow> \<not> P r) \<Longrightarrow> suma_donde P v rs = 0"
  by (simp add: suma_donde_def)

subsection \<open>Descending order\<close>

text \<open>
  A list is in descending order when \<open>sorted_wrt (\<ge>)\<close> holds of it. Two lists
  in descending order with the same elements are equal: the key fact behind
  the claim that the top-N table does not depend on how a sort breaks ties.
\<close>

lemma sorted_wrt_ge_rev: "sorted_wrt (\<ge>) xs \<longleftrightarrow> sorted (rev xs)"
  by (simp add: sorted_wrt_rev)

lemma sorted_desc_unique:
  fixes xs ys :: "'a::linorder list"
  assumes "mset xs = mset ys" and "sorted_wrt (\<ge>) xs" and "sorted_wrt (\<ge>) ys"
  shows "xs = ys"
proof -
  have "sort (rev ys) = rev xs"
    using assms by (intro properties_for_sort) (simp_all add: sorted_wrt_ge_rev)
  moreover have "sort (rev ys) = rev ys"
    using assms(3) by (simp add: sorted_wrt_ge_rev sorted_sort_id)
  ultimately show ?thesis by simp
qed

lemma sorted_desc_strict:
  fixes f :: "'a \<Rightarrow> 'b::linorder"
  assumes "sorted_wrt (\<lambda>x y. f y \<le> f x) xs" and "distinct (map f xs)"
  shows "sorted_wrt (\<lambda>x y. f y < f x) xs"
  using assms
proof (induction xs)
  case (Cons a xs)
  have "f x < f a" if "x \<in> set xs" for x
  proof -
    have "f x \<le> f a" using Cons.prems(1) that by simp
    moreover have "f x \<noteq> f a"
    proof
      assume "f x = f a"
      with that have "f a \<in> f ` set xs" by (metis image_eqI)
      with Cons.prems(2) show False by simp
    qed
    ultimately show ?thesis by simp
  qed
  with Cons show ?case by simp
qed simp

lemma sorted_desc_take:
  "sorted_wrt R xs \<Longrightarrow> sorted_wrt R (take n xs)"
  by (metis append_take_drop_id sorted_wrt_append)

end
