(* ===== verification/Tabla.thy ===== *)
theory Tabla
  imports Prelude
begin

text \<open>
  The data model of \<open>src/dashboard.py\<close> and its Category Normalizer.
  One row of \<open>Data/cleaned.parquet\<close> is a record \<open>'m fila\<close> whose month column
  has type \<open>'m\<close>: \<open>string\<close> as read by \<open>load_data\<close> (lines 5-7), \<open>mes option\<close>
  after lines 34-38 have made it an ordered \<open>pd.Categorical\<close> over the five
  labels of \<open>meses\<close> (line 32). A value outside the five labels becomes NaN,
  written \<open>None\<close>. The month type is a datatype with the calendar order, and
  \<open>categoria_mes\<close> is the code lookup of \<open>pd.Categorical\<close>.
\<close>

subsection \<open>Rows\<close>

record 'm fila =
  zona :: string
  canal :: string
  mes :: 'm
  producto :: string
  asesor :: string
  monto :: numero
  capacitado :: string
  antiguedad :: numero
  cumplimiento :: numero
  inversion :: numero
  clientes_nuevos :: numero
  participacion :: string
  edad :: numero

text \<open>
  The columns, in the source's spelling: \<open>Zona\<close>, \<open>Canal\<close>, \<open>Mes\<close>,
  \<open>Producto\<close>, \<open>Asesor\<close>, \<open>Monto de Venta\<close>, \<open>Capacitado?\<close>,
  \<open>Antiguedad del Asesor (meses)\<close>, \<open>% Cumplimiento Objetivo\<close>,
  \<open>Inversion en Publicidad\<close>, \<open>% Clientes Nuevos\<close>,
  \<open>Participacion en Campanas\<close>, \<open>Edad del Cliente\<close> (accents dropped here).
\<close>

subsection \<open>The ordered month domain\<close>

datatype mes = Enero | Febrero | Marzo | Abril | Mayo

type_synonym fila_cruda = "string fila"
type_synonym fila_cat = "mes option fila"

definition meses :: "string list" where
  "meses = [''Enero'', ''Febrero'', ''Marzo'', ''Abril'', ''Mayo'']"

primrec codigo_mes :: "mes \<Rightarrow> nat" where
  "codigo_mes Enero = 0"
| "codigo_mes Febrero = 1"
| "codigo_mes Marzo = 2"
| "codigo_mes Abril = 3"
| "codigo_mes Mayo = 4"

definition mes_de_codigo :: "nat \<Rightarrow> mes option" where
  "mes_de_codigo n =
     (if n = 0 then Some Enero else if n = 1 then Some Febrero
      else if n = 2 then Some Marzo else if n = 3 then Some Abril
      else if n = 4 then Some Mayo else None)"

text \<open>
  An ordered categorical compares its values by their codes, the positions of
  the labels in \<open>categories\<close>. The instance makes that order the order of
  \<open>mes\<close>, so the library's \<open>sorted\<close>, \<open>sort\<close> and lexicographic pairs apply.
\<close>

instantiation mes :: linorder
begin

definition less_eq_mes :: "mes \<Rightarrow> mes \<Rightarrow> bool" where
  "less_eq_mes a b \<longleftrightarrow> codigo_mes a \<le> codigo_mes b"

definition less_mes :: "mes \<Rightarrow> mes \<Rightarrow> bool" where
  "less_mes a b \<longleftrightarrow> codigo_mes a < codigo_mes b"

instance
proof
  fix a b c :: mes
  show "a < b \<longleftrightarrow> a \<le> b \<and> \<not> b \<le> a" by (auto simp: less_eq_mes_def less_mes_def)
  show "a \<le> a" by (simp add: less_eq_mes_def)
  show "a \<le> b \<Longrightarrow> b \<le> c \<Longrightarrow> a \<le> c" by (simp add: less_eq_mes_def)
  show "a \<le> b \<Longrightarrow> b \<le> a \<Longrightarrow> a = b" by (cases a; cases b) (simp_all add: less_eq_mes_def)
  show "a \<le> b \<or> b \<le> a" by (auto simp: less_eq_mes_def)
qed

end

definition todos_meses :: "mes list" where
  "todos_meses = [Enero, Febrero, Marzo, Abril, Mayo]"

text \<open>
  \<open>pd.Categorical(df['Mes'], categories=meses, ordered=True)\<close> maps a label to
  the code of its first position in \<open>meses\<close>, and a label outside \<open>meses\<close>
  to NaN.
\<close>

definition categoria_mes :: "string \<Rightarrow> mes option" where
  "categoria_mes s = Option.bind (posicion s meses) mes_de_codigo"

definition normalizar_fila :: "fila_cruda \<Rightarrow> fila_cat" where
  "normalizar_fila r =
     \<lparr>zona = zona r, canal = canal r, mes = categoria_mes (mes r),
      producto = producto r, asesor = asesor r, monto = monto r,
      capacitado = capacitado r, antiguedad = antiguedad r,
      cumplimiento = cumplimiento r, inversion = inversion r,
      clientes_nuevos = clientes_nuevos r, participacion = participacion r,
      edad = edad r\<rparr>"

definition normalizar :: "fila_cruda list \<Rightarrow> fila_cat list" where
  "normalizar t = map normalizar_fila t"

text \<open>
  The label pandas shows for a month is the category at its code
  (\<open>etiqueta_mes\<close>). The calendar itself is not in the code: \<open>nombre_mes\<close>
  gives the Spanish name of each month, and \<open>mes\<close>'s constructors are listed
  in calendar order; the properties below compare the code's categories with
  this calendar.
\<close>

definition etiqueta_mes :: "mes \<Rightarrow> string" where
  "etiqueta_mes m = meses ! codigo_mes m"

primrec nombre_mes :: "mes \<Rightarrow> string" where
  "nombre_mes Enero = ''Enero''"
| "nombre_mes Febrero = ''Febrero''"
| "nombre_mes Marzo = ''Marzo''"
| "nombre_mes Abril = ''Abril''"
| "nombre_mes Mayo = ''Mayo''"

declare fila.make_def [modelo_simps] meses_def [modelo_simps] todos_meses_def [modelo_simps] mes_de_codigo_def [modelo_simps]
  categoria_mes_def [modelo_simps] normalizar_fila_def [modelo_simps]
  normalizar_def [modelo_simps] etiqueta_mes_def [modelo_simps]

subsection \<open>Facts on months and codes\<close>

lemma codigo_mes_inj: "codigo_mes a = codigo_mes b \<longleftrightarrow> a = b"
  by (cases a; cases b) simp_all

lemma mes_de_codigo_codigo_mes [simp]: "mes_de_codigo (codigo_mes m) = Some m"
  by (cases m) (simp_all add: mes_de_codigo_def)

lemma mes_de_codigo_Some: "mes_de_codigo n = Some m \<longleftrightarrow> n = codigo_mes m"
  by (cases m) (auto simp: mes_de_codigo_def)

lemma codigo_mes_less: "codigo_mes m < length meses"
  by (cases m) (simp_all add: meses_def)

lemma distinct_meses: "distinct meses"
  by (simp add: meses_def)

lemma less_eq_mes_iff: "a \<le> b \<longleftrightarrow> codigo_mes a \<le> codigo_mes b"
  by (simp add: less_eq_mes_def)

lemma less_mes_iff: "a < b \<longleftrightarrow> codigo_mes a < codigo_mes b"
  by (simp add: less_mes_def)

lemma set_todos_meses [simp]: "set todos_meses = UNIV"
proof -
  have "m \<in> set todos_meses" for m by (cases m) (simp_all add: todos_meses_def)
  then show ?thesis by blast
qed

lemma sorted_todos_meses: "sorted_wrt (<) todos_meses"
  by (simp add: todos_meses_def less_mes_iff)

lemma distinct_todos_meses [simp]: "distinct todos_meses"
  by (simp add: todos_meses_def)

lemma categoria_mes_codigo: "categoria_mes s = Some m \<longleftrightarrow> posicion s meses = Some (codigo_mes m)"
  by (auto simp: categoria_mes_def mes_de_codigo_Some bind_eq_Some_conv)

subsection \<open>Facts on normalized rows\<close>

lemma normalizar_fila_sel [simp]:
  "zona (normalizar_fila r) = zona r" "canal (normalizar_fila r) = canal r"
  "mes (normalizar_fila r) = categoria_mes (mes r)"
  "producto (normalizar_fila r) = producto r" "asesor (normalizar_fila r) = asesor r"
  "monto (normalizar_fila r) = monto r" "capacitado (normalizar_fila r) = capacitado r"
  "antiguedad (normalizar_fila r) = antiguedad r"
  "cumplimiento (normalizar_fila r) = cumplimiento r"
  "inversion (normalizar_fila r) = inversion r"
  "clientes_nuevos (normalizar_fila r) = clientes_nuevos r"
  "participacion (normalizar_fila r) = participacion r" "edad (normalizar_fila r) = edad r"
  by (simp_all add: normalizar_fila_def)

lemma posicion_meses_codigo:
  "posicion s meses = Some (codigo_mes m) \<longleftrightarrow> s = meses ! codigo_mes m"
  using posicion_nth [OF distinct_meses codigo_mes_less [of m]]
  by (auto simp: posicion_Some_iff)

subsection \<open>Properties of the Category Normalizer\<close>

lemma etiqueta_nombre_mes: "etiqueta_mes m = nombre_mes m"
  by (cases m) (simp_all add: etiqueta_mes_def meses_def)

text \<open>
  C15. The Category Normalizer reads each of the five Spanish month names as
  that month and nothing else as a month: a label is normalized to month
  \<open>m\<close> exactly when it is the calendar name of \<open>m\<close>, so the categories of
  line 32 list the months in calendar order.
\<close>

theorem categoria_mes_roundtrip: "categoria_mes s = Some m \<longleftrightarrow> s = nombre_mes m"
proof -
  have "categoria_mes s = Some m \<longleftrightarrow> s = meses ! codigo_mes m"
    by (simp add: categoria_mes_codigo posicion_meses_codigo)
  also have "\<dots> \<longleftrightarrow> s = nombre_mes m"
    using etiqueta_nombre_mes [of m] by (simp only: etiqueta_mes_def)
  finally show ?thesis .
qed

end
