(* ===== verification/Interfaz.thy ===== *)
theory Interfaz
  imports Tabla
begin

text \<open>
  The interface between the dashboard and its two external collaborators,
  Streamlit's widgets and Plotly's charts. A rerun of the script reads the
  widget state (\<open>entrada_ui\<close>): the index chosen in the sidebar radio
  (line 44), the zones chosen in the multiselect (line 57, \<open>None\<close> while the
  user has not touched it, so that its \<open>default\<close> holds) and the indices chosen
  in the two select boxes (lines 71-72). \<open>selectbox\<close> returns \<open>None\<close> for an
  empty option list, as \<open>st.selectbox\<close> does, and falls back to the default
  index 0 for a stale index (which no reachable widget state of \<open>Widgets\<close>
  holds). A chart is a \<open>grafico\<close> holding the table handed
  to the Plotly call and the encoded columns; \<open>renderizable\<close> is the part of
  Plotly's contract the code depends on: marker sizes are not negative
  (\<open>scatter.marker.size\<close> is validated with \<open>min=0\<close>). \<open>titulo_linea\<close> is the
  drill-down's title (line 79).
\<close>

record entrada_ui =
  opcion_menu :: nat
  zonas_elegidas :: "string list option"
  indice_zona :: nat
  indice_canal :: nat

definition selectbox :: "'a list \<Rightarrow> nat \<Rightarrow> 'a option" where
  "selectbox opciones i =
     (if opciones = [] then None
      else if i < length opciones then Some (opciones ! i) else Some (opciones ! 0))"

definition multiselect :: "'a list \<Rightarrow> 'a list option \<Rightarrow> 'a list" where
  "multiselect opciones sel =
     (case sel of None \<Rightarrow> opciones | Some xs \<Rightarrow> filter (\<lambda>x. x \<in> set opciones) xs)"

datatype grafico =
    LineaPolar "((string \<times> string) \<times> numero) list"
  | Lineas "string option" "string option" "((mes \<times> string) \<times> numero) list"
  | BarrasH "(string \<times> numero) list"
  | Barras "(string \<times> numero) list"
  | Dispersion "(numero \<times> numero \<times> string \<times> numero) list"

fun renderizable :: "grafico \<Rightarrow> bool" where
  "renderizable (Dispersion ps) = list_all (\<lambda>(x, y, c, s). 0 \<le> s) ps"
| "renderizable _ = True"

text \<open>
  The drill-down chart is titled by the f-string of line 79, which formats a
  select box's \<open>None\<close> as the text \<open>None\<close> (Python's \<open>str(None)\<close>); the
  letter "o" with an acute accent is written as its UTF-8 bytes \<open>0xC3 0xB3\<close>.
  The other charts have no title.
\<close>

definition formato_fstring :: "string option \<Rightarrow> string" where
  "formato_fstring x = (case x of None \<Rightarrow> ''None'' | Some s \<Rightarrow> s)"

definition titulo_linea :: "string option \<Rightarrow> string option \<Rightarrow> string" where
  "titulo_linea z c =
     ''Evoluci'' @ [CHR 0xC3, CHR 0xB3] @ ''n de ventas ('' @ formato_fstring z @ '' - ''
     @ formato_fstring c @ '')''"

fun titulo_grafico :: "grafico \<Rightarrow> string option" where
  "titulo_grafico (Lineas z c _) = Some (titulo_linea z c)"
| "titulo_grafico _ = None"

declare selectbox_def [modelo_simps] multiselect_def [modelo_simps] formato_fstring_def [modelo_simps]
  titulo_linea_def [modelo_simps]

lemma selectbox_None_iff: "selectbox opciones i = None \<longleftrightarrow> opciones = []"
  by (simp add: selectbox_def)

lemma selectbox_in: "selectbox opciones i = Some x \<Longrightarrow> x \<in> set opciones"
  by (auto simp: selectbox_def split: if_splits)

lemma set_multiselect: "set (multiselect opciones sel) \<subseteq> set opciones"
  by (auto simp: multiselect_def split: option.splits)

lemma multiselect_default [simp]: "multiselect opciones None = opciones"
  by (simp add: multiselect_def)

lemma multiselect_vacia [simp]: "multiselect opciones (Some []) = []"
  by (simp add: multiselect_def)

end
