(* ===== verification/GroupBy.thy ===== *)
theory GroupBy
  imports Prelude
begin

text \<open>
  The pandas operations the three pipelines are built from, generic in the row
  type. \<open>df.groupby(key)[col].sum()\<close> with pandas' defaults (\<open>sort=True\<close>,
  \<open>dropna=True\<close>) is \<open>groupby_sum\<close>: one pass over the rows adds each value
  to the running total of its key, groups kept in order of first appearance
  (pandas' \<open>factorize\<close>), then the groups are sorted by key. It is proved equal
  to \<open>groupby_sum_ref\<close>, which sums each key's rows separately.
  \<open>sorted(df[col].unique())\<close> is \<open>unicos_ordenados\<close>.
\<close>

subsection \<open>Definitions\<close>

definition unicos_ordenados :: "('r \<Rightarrow> 'k::linorder) \<Rightarrow> 'r list \<Rightarrow> 'k list" where
  "unicos_ordenados key rs = sort (remdups (map key rs))"

fun acumular :: "'k \<Rightarrow> 'n::comm_monoid_add \<Rightarrow> ('k \<times> 'n) list \<Rightarrow> ('k \<times> 'n) list" where
  "acumular k v [] = [(k, v)]"
| "acumular k v ((k', s) # ps) =
     (if k = k' then (k', s + v) # ps else (k', s) # acumular k v ps)"

fun agrupar :: "('r \<Rightarrow> 'k) \<Rightarrow> ('r \<Rightarrow> 'n::comm_monoid_add) \<Rightarrow> ('k \<times> 'n) list \<Rightarrow> 'r list \<Rightarrow> ('k \<times> 'n) list" where
  "agrupar key v acc [] = acc"
| "agrupar key v acc (r # rs) = agrupar key v (acumular (key r) (v r) acc) rs"

definition groupby_sum :: "('r \<Rightarrow> 'k::linorder) \<Rightarrow> ('r \<Rightarrow> 'n::comm_monoid_add) \<Rightarrow> 'r list \<Rightarrow> ('k \<times> 'n) list" where
  "groupby_sum key v rs = sort_key fst (agrupar key v [] rs)"

definition groupby_sum_ref :: "('r \<Rightarrow> 'k::linorder) \<Rightarrow> ('r \<Rightarrow> 'n::comm_monoid_add) \<Rightarrow> 'r list \<Rightarrow> ('k \<times> 'n) list" where
  "groupby_sum_ref key v rs = map (\<lambda>k. (k, suma_donde (\<lambda>r. key r = k) v rs)) (unicos_ordenados key rs)"

text \<open>
  A key that is NaN is dropped (\<open>dropna=True\<close>): \<open>groupby_sum_dropna\<close>
  groups by a key of type \<open>'k option\<close> and ignores the rows whose key is
  \<open>None\<close>. When a grouping column is categorical, pandas (\<open>observed=False\<close>,
  the default of pandas 1.x and 2.x) re-indexes the result by the product of all
  the categories with the sorted observed values of the other key, and fills
  the missing sums with 0 (\<open>_reindex_output\<close> with \<open>fill_value=0\<close>):
  \<open>reindex_producto\<close> and \<open>groupby_sum_categorico\<close>.
\<close>

definition valor :: "('k \<times> 'n::zero) list \<Rightarrow> 'k \<Rightarrow> 'n" where
  "valor acc k = (case map_of acc k of None \<Rightarrow> 0 | Some s \<Rightarrow> s)"

definition groupby_sum_dropna :: "('r \<Rightarrow> 'k::linorder option) \<Rightarrow> ('r \<Rightarrow> 'n::comm_monoid_add) \<Rightarrow> 'r list \<Rightarrow> ('k \<times> 'n) list" where
  "groupby_sum_dropna key v rs = groupby_sum (\<lambda>r. the (key r)) v (filter (\<lambda>r. key r \<noteq> None) rs)"

definition reindex_producto :: "'a list \<Rightarrow> 'b list \<Rightarrow> (('a \<times> 'b) \<times> 'n::zero) list \<Rightarrow> (('a \<times> 'b) \<times> 'n) list" where
  "reindex_producto as bs g = concat (map (\<lambda>a. map (\<lambda>b. ((a, b), valor g (a, b))) bs) as)"

definition groupby_sum_categorico ::
  "'a::linorder list \<Rightarrow> ('r \<Rightarrow> 'a option) \<Rightarrow> ('r \<Rightarrow> 'b::linorder) \<Rightarrow> ('r \<Rightarrow> 'n::comm_monoid_add) \<Rightarrow> 'r list
   \<Rightarrow> (('a \<times> 'b) \<times> 'n) list" where
  "groupby_sum_categorico cats key1 key2 v rs =
     reindex_producto cats (unicos_ordenados key2 rs)
       (groupby_sum_dropna (\<lambda>r. map_option (\<lambda>a. (a, key2 r)) (key1 r)) v rs)"

text \<open>
  \<open>sort_values(col, ascending=False)\<close> sorts through pandas' \<open>nargsort\<close>, which
  for a descending sort reverses the rows, sorts them ascending and reverses the
  result, so that rows with equal values keep their order (exact for a stable
  kernel; see the header for numpy's quicksort).
\<close>

definition sort_values_desc :: "('a \<Rightarrow> 'k::linorder) \<Rightarrow> 'a list \<Rightarrow> 'a list" where
  "sort_values_desc f xs = rev (sort_key f (rev xs))"

declare unicos_ordenados_def [modelo_simps] groupby_sum_def [modelo_simps] valor_def [modelo_simps]
  groupby_sum_dropna_def [modelo_simps] reindex_producto_def [modelo_simps]
  groupby_sum_categorico_def [modelo_simps] sort_values_desc_def [modelo_simps]

subsection \<open>The accumulator\<close>

lemma valor_Nil [simp]: "valor [] k = 0"
  by (simp add: valor_def)

lemma keys_acumular:
  "fst ` set (acumular k v acc) = insert k (fst ` set acc)"
  by (induction k v acc rule: acumular.induct) auto

lemma distinct_acumular:
  "distinct (map fst acc) \<Longrightarrow> distinct (map fst (acumular k v acc))"
  by (induction k v acc rule: acumular.induct) (auto simp: keys_acumular)

lemma map_of_acumular:
  "map_of (acumular k v acc) k' = (if k' = k then Some (valor acc k + v) else map_of acc k')"
  by (induction k v acc rule: acumular.induct) (auto simp: valor_def)

lemma valor_acumular:
  "valor (acumular k v acc) k' = (if k' = k then valor acc k + v else valor acc k')"
  by (simp add: valor_def map_of_acumular)

lemma keys_agrupar:
  "fst ` set (agrupar key v acc rs) = fst ` set acc \<union> key ` set rs"
  by (induction rs arbitrary: acc) (simp_all add: keys_acumular)

lemma distinct_agrupar:
  "distinct (map fst acc) \<Longrightarrow> distinct (map fst (agrupar key v acc rs))"
  by (induction rs arbitrary: acc) (auto simp: distinct_acumular)

lemma valor_agrupar:
  "valor (agrupar key v acc rs) k = valor acc k + suma_donde (\<lambda>r. key r = k) v rs"
  by (induction rs arbitrary: acc) (auto simp: valor_acumular add.assoc)

subsection \<open>Sorting a table with distinct keys\<close>

lemma map_fst_sort_key:
  "map fst (sort_key fst xs) = sort (map fst xs)"
proof (rule properties_for_sort [symmetric])
  show "mset (map fst (sort_key fst xs)) = mset (map fst xs)"
    by (metis mset_map mset_sort)
  show "sorted (map fst (sort_key fst xs))"
    by simp
qed

lemma table_eq_keys:
  assumes "\<And>k s. (k, s) \<in> set ys \<Longrightarrow> s = g k"
  shows "ys = map (\<lambda>k. (k, g k)) (map fst ys)"
  using assms by (induction ys) auto

lemma sort_key_fst_distinct:
  assumes "distinct (map fst xs)"
  shows "sort_key fst xs = map (\<lambda>k. (k, valor xs k)) (sort (map fst xs))"
proof -
  have "s = valor xs k" if "(k, s) \<in> set (sort_key fst xs)" for k s
    using that assms by (simp add: valor_def)
  then have "sort_key fst xs = map (\<lambda>k. (k, valor xs k)) (map fst (sort_key fst xs))"
    by (rule table_eq_keys)
  then show ?thesis by (simp add: map_fst_sort_key)
qed

lemma sort_distinct_eq:
  assumes "distinct xs" and "distinct ys" and "set xs = set ys"
  shows "sort xs = (sort ys :: 'k::linorder list)"
  using assms by (intro sorted_distinct_set_unique) simp_all

subsection \<open>The single pass computes the per-key sums\<close>

lemma groupby_sum_eq_ref: "groupby_sum key v rs = groupby_sum_ref key v rs"
proof -
  let ?A = "agrupar key v [] rs"
  have d: "distinct (map fst ?A)" by (rule distinct_agrupar) simp
  have "sort (map fst ?A) = unicos_ordenados key rs"
    unfolding unicos_ordenados_def
    by (rule sort_distinct_eq) (simp_all add: d keys_agrupar)
  moreover have "valor ?A k = suma_donde (\<lambda>r. key r = k) v rs" for k
    by (simp add: valor_agrupar)
  ultimately show ?thesis
    by (simp add: groupby_sum_def groupby_sum_ref_def sort_key_fst_distinct [OF d])
qed

subsection \<open>Facts on grouped tables\<close>

lemma map_fst_groupby_sum: "map fst (groupby_sum key v rs) = unicos_ordenados key rs"
  by (simp add: groupby_sum_eq_ref groupby_sum_ref_def comp_def)

lemma set_unicos_ordenados [simp]: "set (unicos_ordenados key rs) = key ` set rs"
  by (simp add: unicos_ordenados_def)

lemma sorted_unicos_ordenados: "sorted_wrt (<) (unicos_ordenados key rs)"
  by (simp add: unicos_ordenados_def strict_sorted_iff)

lemma distinct_unicos_ordenados [simp]: "distinct (unicos_ordenados key rs)"
  by (simp add: unicos_ordenados_def)

lemma unicos_ordenados_Nil_iff [simp]: "unicos_ordenados key rs = [] \<longleftrightarrow> rs = []"
  by (metis set_unicos_ordenados image_is_empty set_empty)

lemma unicos_ordenados_mset:
  "mset rs = mset ss \<Longrightarrow> unicos_ordenados key rs = unicos_ordenados key ss"
  unfolding unicos_ordenados_def
  by (rule sort_distinct_eq) (simp_all, metis mset_eq_setD)

lemma valor_map:
  "valor (map (\<lambda>k. (k, f k)) ks) k = (if k \<in> set ks then f k else 0)"
  by (induction ks) (auto simp: valor_def)

lemma valor_groupby_sum:
  "valor (groupby_sum key v rs) k = suma_donde (\<lambda>r. key r = k) v rs"
proof (cases "k \<in> key ` set rs")
  case True
  then show ?thesis by (simp add: groupby_sum_eq_ref groupby_sum_ref_def valor_map)
next
  case False
  then have "suma_donde (\<lambda>r. key r = k) v rs = 0"
    by (intro suma_donde_none) auto
  with False show ?thesis by (simp add: groupby_sum_eq_ref groupby_sum_ref_def valor_map)
qed

lemma suma_donde_claves:
  assumes "finite K" and "key ` set rs \<subseteq> K"
  shows "(\<Sum>k\<in>K. suma_donde (\<lambda>r. key r = k) v rs) = sum_list (map v rs)"
  using assms(2)
proof (induction rs)
  case Nil
  then show ?case by simp
next
  case (Cons r rs)
  let ?S = "\<lambda>k. suma_donde (\<lambda>r. key r = k) v rs"
  have "(\<Sum>k\<in>K. suma_donde (\<lambda>r. key r = k) v (r # rs))
        = (\<Sum>k\<in>K. (if key r = k then v r else 0) + ?S k)"
    by (rule sum.cong) auto
  also have "\<dots> = v r + (\<Sum>k\<in>K. ?S k)"
    using Cons.prems assms(1) by (simp add: sum.distrib)
  also have "\<dots> = sum_list (map v (r # rs))"
    using Cons by simp
  finally show ?case .
qed

lemma valor_dropna:
  "valor (groupby_sum_dropna key v rs) k = suma_donde (\<lambda>r. key r = Some k) v rs"
proof -
  have "suma_donde (\<lambda>r. the (key r) = k) v (filter (\<lambda>r. key r \<noteq> None) rs)
        = suma_donde (\<lambda>r. key r = Some k) v rs"
    by (simp add: suma_donde_filter) (rule suma_donde_cong, auto)
  then show ?thesis by (simp add: groupby_sum_dropna_def valor_groupby_sum)
qed

lemma groupby_sum_categorico_eq:
  "groupby_sum_categorico cats key1 key2 v rs =
     concat (map (\<lambda>a. map (\<lambda>b. ((a, b), suma_donde (\<lambda>r. key1 r = Some a \<and> key2 r = b) v rs))
       (unicos_ordenados key2 rs)) cats)"
proof -
  have "suma_donde (\<lambda>r. map_option (\<lambda>a. (a, key2 r)) (key1 r) = Some (a, b)) v rs
        = suma_donde (\<lambda>r. key1 r = Some a \<and> key2 r = b) v rs" for a b
    by (rule suma_donde_cong) auto
  then show ?thesis
    by (simp add: groupby_sum_categorico_def reindex_producto_def valor_dropna)
qed

lemma sum_list_producto:
  "sum_list (map snd (concat (map (\<lambda>a. map (\<lambda>b. ((a, b), S a b)) bs) as)))
     = sum_list (map (\<lambda>a. sum_list (map (S a) bs)) as)"
  by (induction as) (simp_all add: comp_def)

lemma suma_donde_por_clave2:
  "(\<Sum>b\<in>key2 ` set rs. suma_donde (\<lambda>r. P r \<and> key2 r = b) v rs) = suma_donde P v rs"
proof -
  have "(\<Sum>b\<in>key2 ` set rs. suma_donde (\<lambda>r. P r \<and> key2 r = b) v rs)
        = (\<Sum>b\<in>key2 ` set rs. suma_donde (\<lambda>r. key2 r = b) v (filter P rs))"
    by (simp add: suma_donde_filter)
  also have "\<dots> = sum_list (map v (filter P rs))"
    by (rule suma_donde_claves) auto
  finally show ?thesis by (simp add: suma_donde_def)
qed

lemma suma_donde_por_categoria:
  assumes "distinct cats"
  shows "sum_list (map (\<lambda>a. suma_donde (\<lambda>r. key1 r = Some a) v rs) cats)
           = suma_donde (\<lambda>r. key1 r \<in> Some ` set cats) v rs"
proof -
  let ?Q = "\<lambda>r. key1 r \<in> Some ` set cats"
  have "sum_list (map (\<lambda>a. suma_donde (\<lambda>r. key1 r = Some a) v rs) cats)
        = (\<Sum>a\<in>set cats. suma_donde (\<lambda>r. the (key1 r) = a) v (filter ?Q rs))"
    using assms
    by (auto simp: sum_list_distinct_conv_sum_set suma_donde_filter intro!: sum.cong suma_donde_cong)
  also have "\<dots> = sum_list (map v (filter ?Q rs))"
    by (rule suma_donde_claves) auto
  finally show ?thesis by (simp add: suma_donde_def)
qed

lemma total_groupby_sum_categorico:
  assumes "distinct cats"
  shows "sum_list (map snd (groupby_sum_categorico cats key1 key2 v rs))
           = suma_donde (\<lambda>r. key1 r \<in> Some ` set cats) v rs"
proof -
  have "sum_list (map (\<lambda>b. suma_donde (\<lambda>r. key1 r = Some a \<and> key2 r = b) v rs) (unicos_ordenados key2 rs))
        = suma_donde (\<lambda>r. key1 r = Some a) v rs" for a
    by (simp add: sum_list_distinct_conv_sum_set suma_donde_por_clave2)
  then show ?thesis
    by (simp add: groupby_sum_categorico_eq sum_list_producto suma_donde_por_categoria [OF assms])
qed

lemma sorted_producto:
  fixes as :: "'a::linorder list" and bs :: "'b::linorder list"
  assumes "sorted_wrt (<) as" and "sorted_wrt (<) bs"
  shows "sorted_wrt (<) (concat (map (\<lambda>a. map (\<lambda>b. (a, b)) bs) as))"
  using assms(1)
proof (induction as)
  case Nil
  then show ?case by simp
next
  case (Cons a as)
  have "sorted_wrt (<) (map (\<lambda>b. (a, b)) bs)"
    using assms(2) by (induction bs) auto
  with Cons show ?case by (auto simp: sorted_wrt_append)
qed

lemma total_groupby_sum:
  "sum_list (map snd (groupby_sum key v rs)) = sum_list (map v rs)"
proof -
  have "sum_list (map snd (groupby_sum key v rs))
        = (\<Sum>k\<in>key ` set rs. suma_donde (\<lambda>r. key r = k) v rs)"
    by (simp add: groupby_sum_eq_ref groupby_sum_ref_def comp_def sum_list_distinct_conv_sum_set)
  also have "\<dots> = sum_list (map v rs)"
    by (rule suma_donde_claves) auto
  finally show ?thesis .
qed

lemma distinct_keys_groupby_sum: "distinct (map fst (groupby_sum key v rs))"
  by (simp add: map_fst_groupby_sum)

lemma length_groupby_sum: "length (groupby_sum key v rs) = card (key ` set rs)"
proof -
  have "length (groupby_sum key v rs) = length (unicos_ordenados key rs)"
    by (metis length_map map_fst_groupby_sum)
  then show ?thesis
    by (simp add: distinct_card [of "unicos_ordenados key rs", symmetric])
qed

lemma set_groupby_sum:
  "set (groupby_sum key v rs) = (\<lambda>k. (k, suma_donde (\<lambda>r. key r = k) v rs)) ` key ` set rs"
  by (simp add: groupby_sum_eq_ref groupby_sum_ref_def)

subsection \<open>Facts on the descending sort\<close>

lemma mset_sort_values_desc [simp]: "mset (sort_values_desc f xs) = mset xs"
  by (simp add: sort_values_desc_def)

lemma set_sort_values_desc [simp]: "set (sort_values_desc f xs) = set xs"
  by (simp add: sort_values_desc_def)

lemma length_sort_values_desc [simp]: "length (sort_values_desc f xs) = length xs"
  by (simp add: sort_values_desc_def)

lemma sorted_sort_values_desc: "sorted_wrt (\<ge>) (map f (sort_values_desc f xs))"
  by (simp add: sort_values_desc_def sorted_wrt_ge_rev rev_map [symmetric])

subsection \<open>Properties of the pandas operations\<close>

text \<open>
  C2. The group-by-and-sum, computed in one pass with a running total per key
  and then sorted, yields one row per distinct key, in ascending key order,
  whose value is the brute-force sum of the values of that key's rows.
\<close>

theorem groupby_sum_refina:
  "groupby_sum key v rs = map (\<lambda>k. (k, suma_donde (\<lambda>r. key r = k) v rs)) (unicos_ordenados key rs)"
  using groupby_sum_eq_ref by (simp add: groupby_sum_ref_def)

end
