(* ===== verification/Ventas.thy ===== *)
theory Ventas
  imports Interfaz GroupBy
begin

text \<open>
  Pipeline A, "Analisis de ventas por categoria" (lines 55-81). The
  zones offered by the multiselect are the sorted distinct zones of the table
  (line 56); the chosen zones filter the table (line 58); the radar chart sums
  the sales by zone and channel (line 61); the drill-down line chart filters the
  zone-filtered table to one zone and one channel chosen in two select boxes
  (lines 71-74) and sums the sales by month and product (line 75), where the
  month is the ordered categorical of \<open>Tabla\<close>, so that pandas re-indexes the
  result by all five months. \<open>espec_ventas\<close> is the pipeline's contract.
\<close>

definition zonas_disponibles :: "fila_cat list \<Rightarrow> string list" where
  "zonas_disponibles t = unicos_ordenados zona t"

definition filtrar_zonas :: "string list \<Rightarrow> fila_cat list \<Rightarrow> fila_cat list" where
  "filtrar_zonas zs t = filter (\<lambda>r. zona r \<in> set zs) t"

definition df_radar :: "fila_cat list \<Rightarrow> ((string \<times> string) \<times> numero) list" where
  "df_radar f = groupby_sum (\<lambda>r. (zona r, canal r)) monto f"

definition filtrar_zona_canal :: "string option \<Rightarrow> string option \<Rightarrow> fila_cat list \<Rightarrow> fila_cat list" where
  "filtrar_zona_canal z c f = filter (\<lambda>r. Some (zona r) = z \<and> Some (canal r) = c) f"

definition df_linea :: "string option \<Rightarrow> string option \<Rightarrow> fila_cat list \<Rightarrow> ((mes \<times> string) \<times> numero) list" where
  "df_linea z c f = groupby_sum_categorico todos_meses mes producto monto (filtrar_zona_canal z c f)"

definition vista_ventas :: "entrada_ui \<Rightarrow> fila_cat list \<Rightarrow> grafico list" where
  "vista_ventas ui t =
     (let zonas = zonas_disponibles t;
          zonas_select = multiselect zonas (zonas_elegidas ui);
          df_filtrado = filtrar_zonas zonas_select t;
          zona_select = selectbox (unicos_ordenados zona df_filtrado) (indice_zona ui);
          canal_select = selectbox (unicos_ordenados canal df_filtrado) (indice_canal ui)
      in [LineaPolar (df_radar df_filtrado),
          Lineas zona_select canal_select (df_linea zona_select canal_select df_filtrado)])"

text \<open>
  The contract of pipeline A (spec, section 4.4 A), for the set \<open>S\<close> of
  selected zones: the radar has one point per (zone, channel) pair of the
  selected rows, in sorted order, with the sum of its sales; the drill-down's
  zone and channel are values of the selected rows, absent exactly when no row
  is selected; the drill-down has a row for each month and each product sold
  in that zone and channel, in calendar and then product order, with the sum
  of the matching sales.
\<close>

definition espec_ventas :: "fila_cat list \<Rightarrow> string set \<Rightarrow> grafico list \<Rightarrow> bool" where
  "espec_ventas t S gs \<longleftrightarrow>
     (let f = filter (\<lambda>r. zona r \<in> S) t in
      case gs of
        [LineaPolar radar, Lineas z c linea] \<Rightarrow>
          sorted_wrt (<) (map fst radar) \<and> fst ` set radar = (\<lambda>r. (zona r, canal r)) ` set f
          \<and> (\<forall>(k, s) \<in> set radar. s = suma_donde (\<lambda>r. (zona r, canal r) = k) monto f)
          \<and> (z = None \<longleftrightarrow> f = []) \<and> (c = None \<longleftrightarrow> f = [])
          \<and> set_option z \<subseteq> zona ` set f \<and> set_option c \<subseteq> canal ` set f
          \<and> sorted_wrt (<) (map fst linea)
          \<and> fst ` set linea = set todos_meses
               \<times> producto ` set (filter (\<lambda>r. Some (zona r) = z \<and> Some (canal r) = c) f)
          \<and> (\<forall>((m, p), s) \<in> set linea. s = suma_donde
               (\<lambda>r. Some (zona r) = z \<and> Some (canal r) = c \<and> mes r = Some m \<and> producto r = p) monto f)
      | _ \<Rightarrow> False)"

declare zonas_disponibles_def [modelo_simps] filtrar_zonas_def [modelo_simps]
  df_radar_def [modelo_simps] filtrar_zona_canal_def [modelo_simps] df_linea_def [modelo_simps]
  vista_ventas_def [modelo_simps]

lemma df_radar_eq:
  "df_radar f = map (\<lambda>k. (k, suma_donde (\<lambda>r. (zona r, canal r) = k) monto f))
     (unicos_ordenados (\<lambda>r. (zona r, canal r)) f)"
  by (simp add: df_radar_def groupby_sum_eq_ref groupby_sum_ref_def)

lemma df_linea_eq:
  "df_linea z c f =
     concat (map (\<lambda>m. map (\<lambda>p. ((m, p),
        suma_donde (\<lambda>r. Some (zona r) = z \<and> Some (canal r) = c \<and> mes r = Some m \<and> producto r = p) monto f))
       (unicos_ordenados producto (filtrar_zona_canal z c f))) todos_meses)"
  by (simp add: df_linea_def groupby_sum_categorico_eq filtrar_zona_canal_def suma_donde_filter conj_assoc)

lemma map_fst_df_linea:
  "map fst (df_linea z c f) =
     concat (map (\<lambda>m. map (\<lambda>p. (m, p)) (unicos_ordenados producto (filtrar_zona_canal z c f))) todos_meses)"
  by (simp add: df_linea_eq map_concat comp_def)

lemma sorted_df_linea: "sorted_wrt (<) (map fst (df_linea z c f))"
  unfolding map_fst_df_linea
  by (rule sorted_producto) (simp_all add: sorted_todos_meses sorted_unicos_ordenados)

lemma vista_ventas_vacia:
  "zonas_elegidas ui = Some [] \<Longrightarrow> vista_ventas ui t = [LineaPolar [], Lineas None None []]"
  by (simp add: vista_ventas_def filtrar_zonas_def selectbox_def df_radar_def groupby_sum_def
      df_linea_def groupby_sum_categorico_def unicos_ordenados_def filtrar_zona_canal_def
      reindex_producto_def)

lemma vista_ventas_sin_zonas:
  "vista_ventas (ui\<lparr>zonas_elegidas := Some []\<rparr>) t = [LineaPolar [], Lineas None None []]"
  by (simp add: vista_ventas_vacia)

lemma filtrar_zonas_todas [simp]: "filtrar_zonas (zonas_disponibles t) t = t"
  by (simp add: filtrar_zonas_def zonas_disponibles_def)

lemma sorted_df_radar: "sorted_wrt (<) (map fst (df_radar f))"
  by (simp add: df_radar_def map_fst_groupby_sum sorted_unicos_ordenados)

subsection \<open>Properties of pipeline A\<close>

text \<open>
  C1. For every selection of zones, the radar table has exactly one row per
  (zone, channel) pair present among the rows of the selected zones, in
  lexicographic order, and its amount is the brute-force sum of the sales of
  the table's rows with a selected zone and that pair.
\<close>

theorem radar_suma_por_zona_canal:
  "df_radar (filtrar_zonas zs t) =
     map (\<lambda>k. (k, suma_donde (\<lambda>r. zona r \<in> set zs \<and> (zona r, canal r) = k) monto t))
       (unicos_ordenados (\<lambda>r. (zona r, canal r)) (filtrar_zonas zs t))"
  by (simp add: df_radar_eq filtrar_zonas_def suma_donde_filter)

text \<open>
  C6. The drill-down table is ordered by month in calendar order (Enero to
  Mayo, not the lexical order of the labels) and, within a month, by product;
  no (month, product) pair occurs twice.
\<close>

theorem linea_orden_calendario: "sorted_wrt (<) (map fst (df_linea z c f))"
  by (rule sorted_df_linea)

text \<open>
  C16. The drill-down's x axis shows the month labels in calendar order: read
  row by row, its month labels are Enero, Febrero, Marzo, Abril and Mayo, each
  repeated once per product sold in the chosen zone and channel (pandas' labels
  are the categories of line 32 at the rows' codes).
\<close>

theorem linea_etiquetas_calendario:
  "map (\<lambda>((m, p), s). etiqueta_mes m) (df_linea z c f)
   = concat (map (replicate (card (producto ` set (filtrar_zona_canal z c f))))
       [''Enero'', ''Febrero'', ''Marzo'', ''Abril'', ''Mayo''])"
proof -
  let ?ps = "unicos_ordenados producto (filtrar_zona_canal z c f)"
  have "map (\<lambda>((m, p), s). etiqueta_mes m) (df_linea z c f) = map (\<lambda>(m, p). etiqueta_mes m) (map fst (df_linea z c f))"
    by (simp add: case_prod_beta comp_def)
  also have "\<dots> = concat (map (\<lambda>m. replicate (length ?ps) (etiqueta_mes m)) todos_meses)"
    by (simp add: map_fst_df_linea map_concat comp_def map_replicate_const)
  also have "length ?ps = card (producto ` set (filtrar_zona_canal z c f))"
    by (simp add: distinct_card [symmetric])
  finally show ?thesis
    by (simp add: todos_meses_def etiqueta_nombre_mes)
qed

text \<open>
  C7. The drill-down table does not depend on the order of the rows of the
  table: two tables holding the same rows give the same table.
\<close>

theorem linea_invariante_orden_filas:
  assumes "mset f = mset g"
  shows "df_linea z c f = df_linea z c g"
proof -
  have "mset (filtrar_zona_canal z c f) = mset (filtrar_zona_canal z c g)"
    using assms by (simp add: filtrar_zona_canal_def)
  then have "unicos_ordenados producto (filtrar_zona_canal z c f)
             = unicos_ordenados producto (filtrar_zona_canal z c g)"
    by (rule unicos_ordenados_mset)
  with assms show ?thesis
    by (simp add: df_linea_eq suma_donde_mset [OF assms])
qed

theorem linea_invariante_orden_filas_witness:
  "mset [fila.make ''Norte'' ''Online'' (Some Marzo) ''A'' ''Ana'' 100 ''No'' 12 80 50 10 ''No'' 30,
         fila.make ''Norte'' ''Online'' (Some Enero) ''B'' ''Luis'' 50 ''No'' 5 60 20 5 ''No'' 40]
     = mset [fila.make ''Norte'' ''Online'' (Some Enero) ''B'' ''Luis'' 50 ''No'' 5 60 20 5 ''No'' 40,
             fila.make ''Norte'' ''Online'' (Some Marzo) ''A'' ''Ana'' 100 ''No'' 12 80 50 10 ''No'' 30]
   \<and> df_linea (Some ''Norte'') (Some ''Online'')
       [fila.make ''Norte'' ''Online'' (Some Marzo) ''A'' ''Ana'' 100 ''No'' 12 80 50 10 ''No'' 30,
        fila.make ''Norte'' ''Online'' (Some Enero) ''B'' ''Luis'' 50 ''No'' 5 60 20 5 ''No'' 40]
     = df_linea (Some ''Norte'') (Some ''Online'')
       [fila.make ''Norte'' ''Online'' (Some Enero) ''B'' ''Luis'' 50 ''No'' 5 60 20 5 ''No'' 40,
        fila.make ''Norte'' ''Online'' (Some Marzo) ''A'' ''Ana'' 100 ''No'' 12 80 50 10 ''No'' 30]"
proof -
  let ?a = "fila.make ''Norte'' ''Online'' (Some Marzo) ''A'' ''Ana'' 100 ''No'' 12 80 50 10 ''No'' 30"
  let ?b = "fila.make ''Norte'' ''Online'' (Some Enero) ''B'' ''Luis'' 50 ''No'' 5 60 20 5 ''No'' 40"
  have p: "mset [?a, ?b] = mset [?b, ?a]" by (simp add: add_mset_commute)
  show ?thesis using p linea_invariante_orden_filas [OF p] by simp
qed

text \<open>
  C8. A row whose month is outside the five labels (NaN after line 34) is
  silently left out of the drill-down chart: the amounts of the table add up
  to the sales of the chosen zone and channel whose month is in the domain.
\<close>

theorem linea_excluye_meses_fuera_de_dominio:
  "sum_list (map snd (df_linea z c f)) =
     suma_donde (\<lambda>r. Some (zona r) = z \<and> Some (canal r) = c \<and> mes r \<noteq> None) monto f"
proof -
  have "suma_donde (\<lambda>r. mes r \<in> Some ` set todos_meses) monto (filtrar_zona_canal z c f)
        = suma_donde (\<lambda>r. Some (zona r) = z \<and> Some (canal r) = c \<and> mes r \<noteq> None) monto f"
    by (simp add: filtrar_zona_canal_def suma_donde_filter conj_assoc) (rule suma_donde_cong, auto)
  then show ?thesis
    by (simp add: df_linea_def total_groupby_sum_categorico)
qed

text \<open>
  C11. When the user deselects every zone, both tables of the view are empty
  and the select boxes return no zone and no channel: the view renders two
  empty charts instead of failing.
\<close>

theorem ventas_seleccion_vacia:
  "vista_ventas (ui\<lparr>zonas_elegidas := Some []\<rparr>) t = [LineaPolar [], Lineas None None []]"
  by (rule vista_ventas_sin_zonas)

text \<open>
  C12. The drill-down table is empty exactly when no row has the chosen zone
  and channel (in particular when a select box has no option); otherwise it
  has a row for each of the five months.
\<close>

theorem linea_vacia_sin_coincidencias:
  "df_linea z c f = [] \<longleftrightarrow> filtrar_zona_canal z c f = []"
proof
  assume "df_linea z c f = []"
  then have "map fst (df_linea z c f) = []" by simp
  then show "filtrar_zona_canal z c f = []"
    by (simp add: map_fst_df_linea todos_meses_def)
next
  assume "filtrar_zona_canal z c f = []"
  then show "df_linea z c f = []"
    by (simp add: df_linea_eq)
qed

text \<open>
  C19. While the zone multiselect keeps its default (every zone of the table),
  the view aggregates the whole table, and the drill-down zone and channel are
  chosen among all the zones and channels of the table.
\<close>

theorem ventas_por_defecto:
  "vista_ventas (ui\<lparr>zonas_elegidas := None\<rparr>) t =
     (let z = selectbox (unicos_ordenados zona t) (indice_zona ui);
          c = selectbox (unicos_ordenados canal t) (indice_canal ui)
      in [LineaPolar (df_radar t), Lineas z c (df_linea z c t)])"
  by (simp add: vista_ventas_def)

text \<open>
  C18. The radar table does not depend on the order of the rows of the table.
\<close>

theorem radar_invariante_orden_filas:
  assumes "mset t = mset t'"
  shows "df_radar (filtrar_zonas zs t) = df_radar (filtrar_zonas zs t')"
proof -
  have m: "mset (filtrar_zonas zs t) = mset (filtrar_zonas zs t')"
    using assms by (simp add: filtrar_zonas_def)
  then have "unicos_ordenados (\<lambda>r. (zona r, canal r)) (filtrar_zonas zs t)
             = unicos_ordenados (\<lambda>r. (zona r, canal r)) (filtrar_zonas zs t')"
    by (rule unicos_ordenados_mset)
  with m show ?thesis by (simp add: df_radar_eq suma_donde_mset [OF m])
qed

theorem radar_invariante_orden_filas_witness:
  "mset [fila.make ''Norte'' ''Online'' (Some Marzo) ''A'' ''Ana'' 100 ''No'' 12 80 50 10 ''No'' 30,
         fila.make ''Sur'' ''Tienda'' (Some Enero) ''B'' ''Luis'' 50 ''No'' 5 60 20 5 ''No'' 40]
     = mset [fila.make ''Sur'' ''Tienda'' (Some Enero) ''B'' ''Luis'' 50 ''No'' 5 60 20 5 ''No'' 40,
             fila.make ''Norte'' ''Online'' (Some Marzo) ''A'' ''Ana'' 100 ''No'' 12 80 50 10 ''No'' 30]
   \<and> df_radar (filtrar_zonas [''Norte'', ''Sur'']
       [fila.make ''Norte'' ''Online'' (Some Marzo) ''A'' ''Ana'' 100 ''No'' 12 80 50 10 ''No'' 30,
        fila.make ''Sur'' ''Tienda'' (Some Enero) ''B'' ''Luis'' 50 ''No'' 5 60 20 5 ''No'' 40])
     = df_radar (filtrar_zonas [''Norte'', ''Sur'']
       [fila.make ''Sur'' ''Tienda'' (Some Enero) ''B'' ''Luis'' 50 ''No'' 5 60 20 5 ''No'' 40,
        fila.make ''Norte'' ''Online'' (Some Marzo) ''A'' ''Ana'' 100 ''No'' 12 80 50 10 ''No'' 30])"
proof -
  let ?a = "fila.make ''Norte'' ''Online'' (Some Marzo) ''A'' ''Ana'' 100 ''No'' 12 80 50 10 ''No'' 30"
  let ?b = "fila.make ''Sur'' ''Tienda'' (Some Enero) ''B'' ''Luis'' 50 ''No'' 5 60 20 5 ''No'' 40"
  have p: "mset [?a, ?b] = mset [?b, ?a]" by (simp add: add_mset_commute)
  show ?thesis using p radar_invariante_orden_filas [OF p, of "[''Norte'', ''Sur'']"] by simp
qed

text \<open>
  C31. Pipeline A refines its contract: for every table and widget state the
  two charts of the view satisfy \<open>espec_ventas\<close> for the zones the
  multiselect returns.
\<close>

theorem ventas_refina_especificacion:
  "espec_ventas t (set (multiselect (zonas_disponibles t) (zonas_elegidas ui))) (vista_ventas ui t)"
proof -
  define f where "f = filtrar_zonas (multiselect (zonas_disponibles t) (zonas_elegidas ui)) t"
  define z where "z = selectbox (unicos_ordenados zona f) (indice_zona ui)"
  define c where "c = selectbox (unicos_ordenados canal f) (indice_canal ui)"
  have v: "vista_ventas ui t = [LineaPolar (df_radar f), Lineas z c (df_linea z c f)]"
    by (simp add: vista_ventas_def f_def z_def c_def Let_def)
  have r: "fst ` set (df_radar f) = (\<lambda>r. (zona r, canal r)) ` set f
           \<and> (\<forall>(k, s) \<in> set (df_radar f). s = suma_donde (\<lambda>r. (zona r, canal r) = k) monto f)"
    by (auto simp: df_radar_def set_groupby_sum image_image)
  have zc: "(z = None \<longleftrightarrow> f = []) \<and> (c = None \<longleftrightarrow> f = [])
            \<and> set_option z \<subseteq> zona ` set f \<and> set_option c \<subseteq> canal ` set f"
    using selectbox_in [of "unicos_ordenados zona f"] selectbox_in [of "unicos_ordenados canal f"]
    by (auto simp: z_def c_def selectbox_None_iff)
  have l1: "fst ` set (df_linea z c f) = set todos_meses
              \<times> producto ` set (filter (\<lambda>r. Some (zona r) = z \<and> Some (canal r) = c) f)"
  proof -
    have e: "set (concat (map (\<lambda>m. map (\<lambda>p. (m, p)) ps) ms)) = set ms \<times> set ps" for ms ps
      by auto
    have "fst ` set (df_linea z c f) = set (map fst (df_linea z c f))" by simp
    also have "\<dots> = set todos_meses \<times> set (unicos_ordenados producto (filtrar_zona_canal z c f))"
      unfolding map_fst_df_linea by (rule e)
    finally show ?thesis by (simp add: filtrar_zona_canal_def)
  qed
  have l2: "\<forall>((m, p), s) \<in> set (df_linea z c f). s = suma_donde
               (\<lambda>r. Some (zona r) = z \<and> Some (canal r) = c \<and> mes r = Some m \<and> producto r = p) monto f"
    by (auto simp: df_linea_eq)
  have "f = filter (\<lambda>r. zona r \<in> set (multiselect (zonas_disponibles t) (zonas_elegidas ui))) t"
    by (simp add: f_def filtrar_zonas_def)
  then show ?thesis
    using v r zc l1 l2 sorted_df_radar [of f] sorted_df_linea [of z c f]
    by (simp add: espec_ventas_def Let_def)
qed

theorem ventas_refina_especificacion_witness:
  "espec_ventas [fila.make ''Norte'' ''Online'' (Some Marzo) ''A'' ''Ana'' 100 ''No'' 12 80 50 10 ''No'' 30]
     (set (multiselect (zonas_disponibles
        [fila.make ''Norte'' ''Online'' (Some Marzo) ''A'' ''Ana'' 100 ''No'' 12 80 50 10 ''No'' 30]) None))
     (vista_ventas \<lparr>opcion_menu = 0, zonas_elegidas = None, indice_zona = 0, indice_canal = 0\<rparr>
        [fila.make ''Norte'' ''Online'' (Some Marzo) ''A'' ''Ana'' 100 ''No'' 12 80 50 10 ''No'' 30])"
  using ventas_refina_especificacion [of
      "[fila.make ''Norte'' ''Online'' (Some Marzo) ''A'' ''Ana'' 100 ''No'' 12 80 50 10 ''No'' 30]"
      "\<lparr>opcion_menu = 0, zonas_elegidas = None, indice_zona = 0, indice_canal = 0\<rparr>"]
  by simp

end
