(* ===== verification/Asesores.thy ===== *)
theory Asesores
  imports Interfaz GroupBy
begin

text \<open>
  Pipeline B, "Analisis de Asesores" (lines 84-115): the ten advisors with the
  largest total sales (lines 86-90: group by advisor, sum, sort descending,
  first ten rows), the total sales by training flag (line 100), and a scatter
  of tenure against goal completion sized by the sale amount, drawn from the
  rows whose amount is not negative (lines 107-114). The same filter feeds
  pipeline C. \<open>espec_asesores\<close> is the pipeline's contract.
\<close>

definition df_top :: "fila_cat list \<Rightarrow> (string \<times> numero) list" where
  "df_top t = take 10 (sort_values_desc snd (groupby_sum asesor monto t))"

definition df_capacitado :: "fila_cat list \<Rightarrow> (string \<times> numero) list" where
  "df_capacitado t = groupby_sum capacitado monto t"

definition filtrar_no_negativos :: "fila_cat list \<Rightarrow> fila_cat list" where
  "filtrar_no_negativos t = filter (\<lambda>r. 0 \<le> monto r) t"

definition puntos_antiguedad :: "fila_cat list \<Rightarrow> (numero \<times> numero \<times> string \<times> numero) list" where
  "puntos_antiguedad f = map (\<lambda>r. (antiguedad r, cumplimiento r, capacitado r, monto r)) f"

definition vista_asesores :: "fila_cat list \<Rightarrow> grafico list" where
  "vista_asesores t =
     (let df_top = df_top t;
          df_capacitado = df_capacitado t;
          df_filtrado = filtrar_no_negativos t
      in [BarrasH df_top, Barras df_capacitado, Dispersion (puntos_antiguedad df_filtrado)])"

text \<open>
  The contract of pipeline B (spec, section 4.4 B), stated without the pandas
  operations: the top-ten chart has ten advisors, or all of them when there
  are fewer, each once, with its total sales, in descending order of total,
  and no advisor left out sells more than one kept; the training chart has one
  bar per flag value, in sorted order, with its total; the tenure scatter has
  exactly one point per row with a non-negative amount.
\<close>

definition espec_asesores :: "fila_cat list \<Rightarrow> grafico list \<Rightarrow> bool" where
  "espec_asesores t gs \<longleftrightarrow>
     (case gs of
        [BarrasH tabla_top, Barras tabla_cap, Dispersion puntos] \<Rightarrow>
          length tabla_top = min 10 (card (asesor ` set t)) \<and> distinct (map fst tabla_top)
          \<and> sorted_wrt (\<ge>) (map snd tabla_top)
          \<and> (\<forall>(a, s) \<in> set tabla_top. a \<in> asesor ` set t \<and> s = suma_donde (\<lambda>r. asesor r = a) monto t)
          \<and> (\<forall>a \<in> fst ` set tabla_top. \<forall>b \<in> asesor ` set t - fst ` set tabla_top.
               suma_donde (\<lambda>r. asesor r = b) monto t \<le> suma_donde (\<lambda>r. asesor r = a) monto t)
          \<and> sorted_wrt (<) (map fst tabla_cap) \<and> fst ` set tabla_cap = capacitado ` set t
          \<and> (\<forall>(f, s) \<in> set tabla_cap. s = suma_donde (\<lambda>r. capacitado r = f) monto t)
          \<and> mset puntos = mset (map (\<lambda>r. (antiguedad r, cumplimiento r, capacitado r, monto r))
                                 (filter (\<lambda>r. 0 \<le> monto r) t))
      | _ \<Rightarrow> False)"

text \<open>Eleven advisors with distinct totals, for the witnesses below.\<close>

definition asesores_ejemplo :: "fila_cat list" where
  "asesores_ejemplo =
     map (\<lambda>(a, m). fila.make ''Norte'' ''Tienda'' (Some Enero) ''P'' a m ''No'' 6 50 10 20 ''No'' 35)
       [(''A01'', 10), (''A02'', 20), (''A03'', 30), (''A04'', 40), (''A05'', 50), (''A06'', 60),
        (''A07'', 70), (''A08'', 80), (''A09'', 90), (''A10'', 100), (''A11'', 5)]"

declare df_top_def [modelo_simps] df_capacitado_def [modelo_simps]
  filtrar_no_negativos_def [modelo_simps] puntos_antiguedad_def [modelo_simps]
  vista_asesores_def [modelo_simps] asesores_ejemplo_def [modelo_simps]

subsection \<open>The ranking before truncation\<close>

abbreviation ranking :: "fila_cat list \<Rightarrow> (string \<times> numero) list" where
  "ranking t \<equiv> sort_values_desc snd (groupby_sum asesor monto t)"

lemma sorted_ranking: "sorted_wrt (\<lambda>x y. snd y \<le> snd x) (ranking t)"
  using sorted_sort_values_desc [of snd "groupby_sum asesor monto t"] by (simp add: sorted_wrt_map)

lemma distinct_ranking: "distinct (map fst (ranking t))"
proof -
  have "mset (map fst (ranking t)) = mset (map fst (groupby_sum asesor monto t))"
    by simp
  then show ?thesis
    by (metis distinct_keys_groupby_sum mset_eq_imp_distinct_iff)
qed

lemma sorted_df_top: "sorted_wrt (\<ge>) (map snd (df_top t))"
proof -
  have "sorted_wrt (\<ge>) (take 10 (map snd (ranking t)))"
    by (rule sorted_desc_take) (rule sorted_sort_values_desc)
  then show ?thesis
    by (simp only: df_top_def take_map)
qed

lemma distinct_df_top: "distinct (map fst (df_top t))"
proof -
  have "distinct (take 10 (map fst (ranking t)))"
    using distinct_ranking by (rule distinct_take)
  then show ?thesis
    by (simp only: df_top_def take_map)
qed

lemma length_df_top: "length (df_top t) \<le> 10"
  by (simp add: df_top_def)

lemma length_ranking: "length (ranking t) = card (asesor ` set t)"
  by (simp add: length_groupby_sum)

lemma take_precede_drop:
  assumes "sorted_wrt R xs" and "x \<in> set (take n xs)" and "y \<in> set (drop n xs)"
  shows "R x y"
  using assms by (metis append_take_drop_id sorted_wrt_append)

lemma ranking_nth_eq:
  assumes "mset ys = mset xs" and "map snd ys = map snd xs" and "distinct (map snd xs)"
  shows "ys = xs"
proof (rule nth_equalityI)
  show len: "length ys = length xs"
    using assms(2) by (metis length_map)
  fix i assume i: "i < length ys"
  then have "ys ! i \<in> set ys" by simp
  then have a: "ys ! i \<in> set xs" using assms(1) by (metis set_mset_mset)
  have b: "xs ! i \<in> set xs" using i len by simp
  have c: "snd (ys ! i) = snd (xs ! i)" using i len assms(2) by (metis nth_map)
  have "inj_on snd (set xs)"
    using assms(3) by (simp add: distinct_map)
  with a b c show "ys ! i = xs ! i"
    by (meson inj_on_eq_iff)
qed

lemma set_take_drop: "set xs = set (take n xs) \<union> set (drop n xs)"
  by (metis append_take_drop_id set_append)

lemma card_mayores_nth:
  fixes f :: "'a \<Rightarrow> 'b::linorder"
  assumes "sorted_wrt (\<lambda>x y. f y < f x) xs" and "i < length xs"
  shows "card {y \<in> set xs. f (xs ! i) < f y} = i"
proof -
  have d: "distinct xs"
    using assms(1)
  proof (induction xs)
    case (Cons x xs)
    then have lt: "\<forall>y\<in>set xs. f y < f x" and "distinct xs" by simp_all
    have "x \<notin> set xs"
    proof
      assume "x \<in> set xs"
      with lt have "f x < f x" by (rule bspec)
      then show False by simp
    qed
    with \<open>distinct xs\<close> show ?case by simp
  qed simp
  have "{y \<in> set xs. f (xs ! i) < f y} = set (take i xs)"
  proof
    show "{y \<in> set xs. f (xs ! i) < f y} \<subseteq> set (take i xs)"
    proof
      fix y assume y: "y \<in> {y \<in> set xs. f (xs ! i) < f y}"
      then obtain j where j: "j < length xs" "y = xs ! j" by (auto simp: in_set_conv_nth)
      have "j < i"
      proof (rule ccontr)
        assume "\<not> j < i"
        then have "f (xs ! j) \<le> f (xs ! i)"
          using assms j by (cases "j = i") (auto simp: sorted_wrt_iff_nth_less less_imp_le)
        with y j show False by simp
      qed
      with j show "y \<in> set (take i xs)" by (auto simp: in_set_conv_nth)
    qed
    show "set (take i xs) \<subseteq> {y \<in> set xs. f (xs ! i) < f y}"
      using assms by (auto simp: in_set_conv_nth sorted_wrt_iff_nth_less dest: in_set_takeD)
  qed
  then show ?thesis
    using d assms(2) by (simp add: distinct_card)
qed

lemma filtro_imagen_par:
  "{y \<in> (\<lambda>k. (k, g k)) ` A. c < snd y} = (\<lambda>k. (k, g k)) ` {b \<in> A. c < g b}"
  by auto

lemma inj_on_par: "inj_on (\<lambda>b. (b, g b)) X"
  by (rule inj_onI) simp

lemma groupby_asesores_ejemplo:
  "groupby_sum asesor monto asesores_ejemplo =
     [(''A01'', 10), (''A02'', 20), (''A03'', 30), (''A04'', 40), (''A05'', 50), (''A06'', 60),
      (''A07'', 70), (''A08'', 80), (''A09'', 90), (''A10'', 100), (''A11'', 5)]"
  by (simp add: modelo_simps)

lemma df_top_asesores_ejemplo:
  "df_top asesores_ejemplo =
     [(''A10'', 100), (''A09'', 90), (''A08'', 80), (''A07'', 70), (''A06'', 60),
      (''A05'', 50), (''A04'', 40), (''A03'', 30), (''A02'', 20), (''A01'', 10)]"
  by (simp add: df_top_def groupby_asesores_ejemplo sort_values_desc_def)

lemma set_df_top:
  assumes "(a, s) \<in> set (df_top t)"
  shows "a \<in> asesor ` set t \<and> s = suma_donde (\<lambda>r. asesor r = a) monto t"
proof -
  have "(a, s) \<in> set (groupby_sum asesor monto t)"
    using assms by (auto simp: df_top_def dest: in_set_takeD)
  then show ?thesis by (auto simp: set_groupby_sum)
qed

lemma length_df_top_eq: "length (df_top t) = min 10 (card (asesor ` set t))"
proof -
  have "length (df_top t) = min 10 (length (ranking t))"
    by (simp add: df_top_def)
  then show ?thesis by (simp only: length_ranking)
qed

lemma df_top_maximo:
  assumes "a \<in> fst ` set (df_top t)" and "b \<in> asesor ` set t" and "b \<notin> fst ` set (df_top t)"
  shows "suma_donde (\<lambda>r. asesor r = b) monto t \<le> suma_donde (\<lambda>r. asesor r = a) monto t"
proof -
  let ?tot = "\<lambda>k. suma_donde (\<lambda>r. asesor r = k) monto t"
  from assms(1) obtain s where as: "(a, s) \<in> set (take 10 (ranking t))"
    by (auto simp: df_top_def)
  then have sa: "s = ?tot a"
    using set_df_top [of a s t] by (simp add: df_top_def)
  have "(b, ?tot b) \<in> set (ranking t)"
    using assms(2) by (simp add: set_groupby_sum)
  moreover have "(b, ?tot b) \<notin> set (take 10 (ranking t))"
    using assms(3) by (force simp: df_top_def)
  ultimately have "(b, ?tot b) \<in> set (drop 10 (ranking t))"
    using set_take_drop [of "ranking t" 10] by blast
  with as have "snd (b, ?tot b) \<le> snd (a, s)"
    by (rule take_precede_drop [OF sorted_ranking])
  with sa show ?thesis by simp
qed

subsection \<open>Properties of pipeline B\<close>

text \<open>
  C3. The top-10 table keeps the best advisors: an advisor of the table who is
  left out of the top ten has total sales no larger than those of any advisor
  in it.
\<close>

theorem top10_maximos:
  assumes "a \<in> fst ` set (df_top t)" and "b \<in> asesor ` set t" and "b \<notin> fst ` set (df_top t)"
  shows "suma_donde (\<lambda>r. asesor r = b) monto t \<le> suma_donde (\<lambda>r. asesor r = a) monto t"
  using assms by (rule df_top_maximo)

theorem top10_maximos_witness:
  "''A10'' \<in> fst ` set (df_top asesores_ejemplo) \<and> ''A11'' \<in> asesor ` set asesores_ejemplo
   \<and> ''A11'' \<notin> fst ` set (df_top asesores_ejemplo)
   \<and> suma_donde (\<lambda>r. asesor r = ''A11'') monto asesores_ejemplo
       \<le> suma_donde (\<lambda>r. asesor r = ''A10'') monto asesores_ejemplo"
proof -
  have h1: "''A10'' \<in> fst ` set (df_top asesores_ejemplo)"
    by (simp add: df_top_asesores_ejemplo)
  have h2: "''A11'' \<in> asesor ` set asesores_ejemplo"
    by (simp add: asesores_ejemplo_def fila.make_def)
  have h3: "''A11'' \<notin> fst ` set (df_top asesores_ejemplo)"
    by (simp add: df_top_asesores_ejemplo)
  note h = h1 h2 h3
  show ?thesis using h top10_maximos [OF h] by blast
qed

text \<open>
  C4. The top-10 table has ten rows, or one per advisor when there are fewer
  than ten; its totals are in descending order and no advisor appears twice.
\<close>

theorem top10_longitud_orden:
  "length (df_top t) = min 10 (card (asesor ` set t))
   \<and> sorted_wrt (\<ge>) (map snd (df_top t)) \<and> distinct (map fst (df_top t))"
  using length_df_top_eq sorted_df_top distinct_df_top by blast

text \<open>
  C5. The top-10 table does not depend on how the sort breaks ties: any
  ordering of the advisors' totals by descending amount gives the same ten
  amounts, and when no two advisors have the same total it gives the same
  table.
\<close>

theorem top10_desempate:
  assumes "mset ys = mset (groupby_sum asesor monto t)" and "sorted_wrt (\<ge>) (map snd ys)"
  shows "map snd (take 10 ys) = map snd (df_top t)
         \<and> (distinct (map snd ys) \<longrightarrow> take 10 ys = df_top t)"
proof -
  have m: "mset ys = mset (ranking t)" using assms(1) by simp
  have "map snd ys = map snd (ranking t)"
  proof (rule sorted_desc_unique)
    show "mset (map snd ys) = mset (map snd (ranking t))" using m by (metis mset_map)
  qed (simp_all add: assms(2) sorted_sort_values_desc)
  moreover have "distinct (map snd ys) \<Longrightarrow> ys = ranking t"
    using m calculation by (intro ranking_nth_eq) simp_all
  ultimately show ?thesis by (auto simp: df_top_def take_map [symmetric])
qed

theorem top10_desempate_witness:
  "mset [(''B'', 10), (''A'', 10), (''C'', 5 :: real)]
     = mset (groupby_sum asesor monto
         [fila.make ''Norte'' ''Tienda'' (Some Enero) ''P'' ''A'' 10 ''No'' 6 50 10 20 ''No'' 35,
          fila.make ''Sur'' ''Tienda'' (Some Enero) ''P'' ''B'' 10 ''No'' 6 50 10 20 ''No'' 35,
          fila.make ''Sur'' ''Tienda'' (Some Enero) ''P'' ''C'' 5 ''No'' 6 50 10 20 ''No'' 35])
   \<and> sorted_wrt (\<ge>) (map snd [(''B'', 10), (''A'', 10), (''C'', 5 :: real)])
   \<and> map snd (take 10 [(''B'', 10), (''A'', 10), (''C'', 5 :: real)])
     = map snd (df_top
         [fila.make ''Norte'' ''Tienda'' (Some Enero) ''P'' ''A'' 10 ''No'' 6 50 10 20 ''No'' 35,
          fila.make ''Sur'' ''Tienda'' (Some Enero) ''P'' ''B'' 10 ''No'' 6 50 10 20 ''No'' 35,
          fila.make ''Sur'' ''Tienda'' (Some Enero) ''P'' ''C'' 5 ''No'' 6 50 10 20 ''No'' 35])"
proof -
  let ?t = "[fila.make ''Norte'' ''Tienda'' (Some Enero) ''P'' ''A'' 10 ''No'' 6 50 10 20 ''No'' 35,
             fila.make ''Sur'' ''Tienda'' (Some Enero) ''P'' ''B'' 10 ''No'' 6 50 10 20 ''No'' 35,
             fila.make ''Sur'' ''Tienda'' (Some Enero) ''P'' ''C'' 5 ''No'' 6 50 10 20 ''No'' 35]"
  let ?ys = "[(''B'', 10), (''A'', 10), (''C'', 5 :: real)]"
  have g: "groupby_sum asesor monto ?t = [(''A'', 10), (''B'', 10), (''C'', 5 :: real)]"
    by (simp add: modelo_simps)
  have h1: "mset ?ys = mset (groupby_sum asesor monto ?t)"
    unfolding g by (simp add: add_mset_commute)
  have h2: "sorted_wrt (\<ge>) (map snd ?ys)" by simp
  show ?thesis using h1 h2 top10_desempate [OF h1 h2] by blast
qed

text \<open>
  C13. When no two advisors have the same total, the top-10 table holds exactly
  the advisors that fewer than ten other advisors outsell.
\<close>

theorem top10_exactos:
  assumes "distinct (map snd (groupby_sum asesor monto t))"
  shows "fst ` set (df_top t) =
    {a \<in> asesor ` set t. card {b \<in> asesor ` set t.
       suma_donde (\<lambda>r. asesor r = a) monto t < suma_donde (\<lambda>r. asesor r = b) monto t} < 10}"
proof -
  let ?tot = "\<lambda>k. suma_donde (\<lambda>r. asesor r = k) monto t"
  let ?L = "ranking t"
  have setL: "set ?L = (\<lambda>k. (k, ?tot k)) ` asesor ` set t"
    by (simp add: set_groupby_sum)
  have dL: "distinct (map snd ?L)"
    using assms by (metis mset_map mset_sort_values_desc mset_eq_imp_distinct_iff)
  have sL: "sorted_wrt (\<lambda>x y. snd y < snd x) ?L"
    using sorted_ranking dL by (rule sorted_desc_strict)
  have idx: "card {b \<in> asesor ` set t. ?tot a < ?tot b} = i"
    if i: "i < length ?L" "?L ! i = (a, ?tot a)" for a i
  proof -
    have "{y \<in> set ?L. snd (?L ! i) < snd y} = (\<lambda>b. (b, ?tot b)) ` {b \<in> asesor ` set t. ?tot a < ?tot b}"
      unfolding setL i(2) snd_conv by (rule filtro_imagen_par)
    then have "card ((\<lambda>b. (b, ?tot b)) ` {b \<in> asesor ` set t. ?tot a < ?tot b}) = i"
      using card_mayores_nth [OF sL i(1)] by simp
    then show ?thesis by (simp add: card_image inj_on_par)
  qed
  show ?thesis
  proof (intro set_eqI iffI)
    fix a assume "a \<in> fst ` set (df_top t)"
    then obtain s where "(a, s) \<in> set (take 10 ?L)" by (auto simp: df_top_def)
    then obtain j where "j < length (take 10 ?L)" and "take 10 ?L ! j = (a, s)"
      by (auto simp: in_set_conv_nth)
    then have j: "j < 10" "j < length ?L" "?L ! j = (a, s)" by simp_all
    then have "(a, s) \<in> set ?L" by (metis nth_mem)
    then have a: "a \<in> asesor ` set t" and s: "s = ?tot a" unfolding setL by auto
    from j(3) s have "?L ! j = (a, ?tot a)" by simp
    with j(2) have "card {b \<in> asesor ` set t. ?tot a < ?tot b} = j" by (rule idx)
    with a j(1) show "a \<in> {a \<in> asesor ` set t. card {b \<in> asesor ` set t. ?tot a < ?tot b} < 10}"
      by simp
  next
    fix a assume a: "a \<in> {a \<in> asesor ` set t. card {b \<in> asesor ` set t. ?tot a < ?tot b} < 10}"
    then have "(a, ?tot a) \<in> set ?L" unfolding setL by simp
    then obtain i where i: "i < length ?L" "?L ! i = (a, ?tot a)" by (meson in_set_conv_nth)
    with a have "i < 10" by (simp add: idx)
    with i have "(a, ?tot a) \<in> set (take 10 ?L)"
      by (metis length_take min_less_iff_conj nth_mem nth_take)
    then show "a \<in> fst ` set (df_top t)" by (force simp: df_top_def)
  qed
qed

theorem top10_exactos_witness:
  "distinct (map snd (groupby_sum asesor monto asesores_ejemplo))
   \<and> fst ` set (df_top asesores_ejemplo) =
    {a \<in> asesor ` set asesores_ejemplo. card {b \<in> asesor ` set asesores_ejemplo.
       suma_donde (\<lambda>r. asesor r = a) monto asesores_ejemplo
         < suma_donde (\<lambda>r. asesor r = b) monto asesores_ejemplo} < 10}"
proof -
  have h: "distinct (map snd (groupby_sum asesor monto asesores_ejemplo))"
    by (simp add: groupby_asesores_ejemplo)
  show ?thesis using h top10_exactos [OF h] by blast
qed

text \<open>
  C9. The filter \<open>Monto de Venta >= 0\<close> removes every row with a negative
  amount and no other row: the amounts that remain are the non-negative
  amounts of the table, in the table's order.
\<close>

theorem filtro_no_negativos:
  "map monto (filtrar_no_negativos t) = filter (\<lambda>m. 0 \<le> m) (map monto t)
   \<and> length (filtrar_no_negativos t) + length (filter (\<lambda>r. monto r < 0) t) = length t"
proof
  show "map monto (filtrar_no_negativos t) = filter (\<lambda>m. 0 \<le> m) (map monto t)"
    by (simp add: filtrar_no_negativos_def filter_map comp_def)
  have "length (filter (\<lambda>r. 0 \<le> monto r) t) + length (filter (\<lambda>r. \<not> 0 \<le> monto r) t) = length t"
    by (rule sum_length_filter_compl)
  then show "length (filtrar_no_negativos t) + length (filter (\<lambda>r. monto r < 0) t) = length t"
    by (simp add: filtrar_no_negativos_def not_le)
qed

text \<open>
  C17. The training-flag chart has one bar per flag value, in sorted order, and
  its bars add up to the total sales of the table: grouping loses no sale.
\<close>

theorem capacitado_conserva_total:
  "map fst (df_capacitado t) = unicos_ordenados capacitado t
   \<and> sum_list (map snd (df_capacitado t)) = sum_list (map monto t)"
  by (simp add: df_capacitado_def map_fst_groupby_sum total_groupby_sum)

text \<open>
  C30. Pipeline B refines its contract: for every table the three charts of
  the view satisfy \<open>espec_asesores\<close>.
\<close>

theorem asesores_refina_especificacion: "espec_asesores t (vista_asesores t)"
proof -
  have top: "\<forall>(a, s) \<in> set (df_top t). a \<in> asesor ` set t \<and> s = suma_donde (\<lambda>r. asesor r = a) monto t"
    using set_df_top by blast
  have max: "\<forall>a \<in> fst ` set (df_top t). \<forall>b \<in> asesor ` set t - fst ` set (df_top t).
               suma_donde (\<lambda>r. asesor r = b) monto t \<le> suma_donde (\<lambda>r. asesor r = a) monto t"
    using df_top_maximo by blast
  have c1: "sorted_wrt (<) (map fst (df_capacitado t))"
    by (simp add: df_capacitado_def map_fst_groupby_sum sorted_unicos_ordenados)
  have c2: "fst ` set (df_capacitado t) = capacitado ` set t"
    by (metis df_capacitado_def map_fst_groupby_sum set_map set_unicos_ordenados)
  have c3: "\<forall>(f, s) \<in> set (df_capacitado t). s = suma_donde (\<lambda>r. capacitado r = f) monto t"
    by (auto simp: df_capacitado_def set_groupby_sum)
  show ?thesis
    using length_df_top_eq distinct_df_top sorted_df_top top max c1 c2 c3
    by (simp add: espec_asesores_def vista_asesores_def puntos_antiguedad_def filtrar_no_negativos_def)
qed

theorem asesores_refina_especificacion_witness:
  "espec_asesores asesores_ejemplo (vista_asesores asesores_ejemplo)
   \<and> vista_asesores asesores_ejemplo ! 0 = BarrasH (df_top asesores_ejemplo)"
  using asesores_refina_especificacion [of asesores_ejemplo] by (simp add: vista_asesores_def)

end
