(* ===== verification/Publicidad.thy ===== *)
theory Publicidad
  imports Asesores
begin

text \<open>
  Pipeline C, "Analisis de cliente vs publicidad" (lines 118-137): a scatter of
  advertising investment against the share of new customers, sized by the
  sale amount and drawn from the rows whose amount is not negative (lines
  121-127), and a scatter of customer age against the sale amount, sized by the
  share of new customers and drawn from every row (lines 131-136). A point is
  (x, y, colour, size); the hover columns are not modelled.
  \<open>espec_publicidad\<close> is the pipeline's contract.
\<close>

definition puntos_publicidad :: "fila_cat list \<Rightarrow> (numero \<times> numero \<times> string \<times> numero) list" where
  "puntos_publicidad f = map (\<lambda>r. (inversion r, clientes_nuevos r, participacion r, monto r)) f"

definition puntos_edad :: "fila_cat list \<Rightarrow> (numero \<times> numero \<times> string \<times> numero) list" where
  "puntos_edad t = map (\<lambda>r. (edad r, monto r, producto r, clientes_nuevos r)) t"

definition vista_publicidad :: "fila_cat list \<Rightarrow> grafico list" where
  "vista_publicidad t =
     (let df_filtrado = filtrar_no_negativos t
      in [Dispersion (puntos_publicidad df_filtrado), Dispersion (puntos_edad t)])"

text \<open>
  The contract of pipeline C (spec, section 4.4 C): the advertising scatter
  has one point per row with a non-negative amount, sized by that amount; the
  age scatter has one point per row of the table.
\<close>

definition espec_publicidad :: "fila_cat list \<Rightarrow> grafico list \<Rightarrow> bool" where
  "espec_publicidad t gs \<longleftrightarrow>
     (case gs of
        [Dispersion pub, Dispersion ed] \<Rightarrow>
          mset pub = mset (map (\<lambda>r. (inversion r, clientes_nuevos r, participacion r, monto r))
                             (filter (\<lambda>r. 0 \<le> monto r) t))
          \<and> list_all (\<lambda>(x, y, c, s). 0 \<le> s) pub
          \<and> mset ed = mset (map (\<lambda>r. (edad r, monto r, producto r, clientes_nuevos r)) t)
      | _ \<Rightarrow> False)"

declare puntos_publicidad_def [modelo_simps] puntos_edad_def [modelo_simps]
  vista_publicidad_def [modelo_simps]

lemma renderizable_publicidad:
  "renderizable (Dispersion (puntos_publicidad (filtrar_no_negativos t)))"
  by (simp add: puntos_publicidad_def filtrar_no_negativos_def list_all_iff)

lemma renderizable_edad:
  "renderizable (Dispersion (puntos_edad t)) \<longleftrightarrow> list_all (\<lambda>r. 0 \<le> clientes_nuevos r) t"
  by (simp add: puntos_edad_def list_all_iff)

text \<open>
  C32. Pipeline C refines its contract: for every table the two scatters of
  the view satisfy \<open>espec_publicidad\<close>.
\<close>

theorem publicidad_refina_especificacion: "espec_publicidad t (vista_publicidad t)"
  by (simp add: espec_publicidad_def vista_publicidad_def puntos_publicidad_def puntos_edad_def
      filtrar_no_negativos_def list_all_iff)

end
