(* ===== verification/Cargador.thy ===== *)
theory Cargador
  imports Prelude
begin

text \<open>
  The Data Loader, \<open>load_data\<close> (lines 5-7): \<open>pd.read_parquet\<close> of a fixed path
  under \<open>@st.cache_data\<close>. The read itself is I/O and is an input of the model:
  \<open>lectura\<close> is what \<open>read_parquet\<close> returns at the moment of the call, a table or
  a \<open>LoadError\<close> (missing file, unreadable file, schema that does not parse).
  The cache is the state, one slot since the function has no arguments:
  \<open>st.cache_data\<close> returns the cached value without calling the function when
  the slot is full, stores the value of a call that returns, and stores
  nothing when the call raises. The table type is a parameter, so the facts
  hold for any table the loader caches.
\<close>

datatype error_carga = LoadError string

type_synonym 'a cache = "'a option"

definition load_data :: "error_carga + 'a \<Rightarrow> 'a cache \<Rightarrow> (error_carga + 'a) \<times> 'a cache" where
  "load_data lectura cache =
     (case cache of
        Some t \<Rightarrow> (Inr t, cache)
      | None \<Rightarrow> (case lectura of Inl e \<Rightarrow> (Inl e, None) | Inr t \<Rightarrow> (Inr t, Some t)))"

declare load_data_def [modelo_simps]

lemma load_data_Some [simp]: "load_data l (Some t) = (Inr t, Some t)"
  by (simp add: load_data_def)

lemma load_data_None_Inl [simp]: "load_data (Inl e) None = (Inl e, None)"
  by (simp add: load_data_def)

lemma load_data_None_Inr [simp]: "load_data (Inr t) None = (Inr t, Some t)"
  by (simp add: load_data_def)

end
