(* ===== verification/Dashboard.thy ===== *)
theory Dashboard
  imports Ventas Publicidad Cargador
begin

text \<open>
  The script as a whole (lines 30-137). Streamlit reruns it from the top on
  every interaction: \<open>load_data\<close> (line 33, through the cache of
  \<open>Cargador\<close>), the categorical month (lines 34-38, \<open>normalizar\<close> of
  \<open>Tabla\<close>), the sidebar radio over the three labels of \<open>analisis\<close>
  (lines 42-44) and the \<open>if\<close>/\<open>elif\<close> chain that runs one of the three
  pipelines (lines 55, 84, 118). The labels are written as their UTF-8 bytes:
  \<open>0xC3 0xA1\<close> is "a" with an acute accent, \<open>0xC3 0xAD\<close> is "i" with one.
  \<open>ejecutar\<close> is one rerun: the outcome of the read, the widget state and the
  cache go in; the charts (or the load error, which stops the script) and the
  new cache come out. \<open>sesion\<close> is a sequence of reruns in one process.
\<close>

definition etiqueta_ventas :: string where
  "etiqueta_ventas = ''An'' @ [CHR 0xC3, CHR 0xA1] @ ''lisis de ventas por categor'' @ [CHR 0xC3, CHR 0xAD] @ ''a''"

definition etiqueta_asesores :: string where
  "etiqueta_asesores = ''An'' @ [CHR 0xC3, CHR 0xA1] @ ''lisis de Asesores''"

definition etiqueta_publicidad :: string where
  "etiqueta_publicidad = ''An'' @ [CHR 0xC3, CHR 0xA1] @ ''lisis de cliente vs publicidad''"

definition analisis :: "string list" where
  "analisis = [etiqueta_ventas, etiqueta_asesores, etiqueta_publicidad]"

definition dashboard :: "entrada_ui \<Rightarrow> fila_cat list \<Rightarrow> grafico list" where
  "dashboard ui df =
     (case selectbox analisis (opcion_menu ui) of
        None \<Rightarrow> []
      | Some section \<Rightarrow>
          if section = etiqueta_ventas then vista_ventas ui df
          else if section = etiqueta_asesores then vista_asesores df
          else if section = etiqueta_publicidad then vista_publicidad df
          else [])"

definition ejecutar ::
  "error_carga + fila_cruda list \<Rightarrow> entrada_ui \<Rightarrow> fila_cruda list cache
   \<Rightarrow> (error_carga + grafico list) \<times> fila_cruda list cache" where
  "ejecutar lectura ui cache =
     (case load_data lectura cache of
        (Inl e, cache') \<Rightarrow> (Inl e, cache')
      | (Inr df, cache') \<Rightarrow> (Inr (dashboard ui (normalizar df)), cache'))"

fun sesion ::
  "((error_carga + fila_cruda list) \<times> entrada_ui) list \<Rightarrow> fila_cruda list cache
   \<Rightarrow> (error_carga + grafico list) list \<times> fila_cruda list cache" where
  "sesion [] cache = ([], cache)"
| "sesion ((lectura, ui) # xs) cache =
     (let (salida, cache') = ejecutar lectura ui cache;
          (salidas, cache'') = sesion xs cache'
      in (salida # salidas, cache''))"

declare etiqueta_ventas_def [modelo_simps] etiqueta_asesores_def [modelo_simps]
  etiqueta_publicidad_def [modelo_simps] analisis_def [modelo_simps] dashboard_def [modelo_simps]
  ejecutar_def [modelo_simps]

subsection \<open>The router\<close>

lemma etiquetas_distintas:
  "etiqueta_ventas \<noteq> etiqueta_asesores" "etiqueta_ventas \<noteq> etiqueta_publicidad"
  "etiqueta_asesores \<noteq> etiqueta_publicidad"
  by (simp_all add: etiqueta_ventas_def etiqueta_asesores_def etiqueta_publicidad_def)

lemma dashboard_eq:
  "dashboard ui df =
     (if opcion_menu ui = 1 then vista_asesores df
      else if opcion_menu ui = 2 then vista_publicidad df
      else vista_ventas ui df)"
proof -
  have "selectbox analisis i = Some (if i = 1 then etiqueta_asesores else if i = 2 then etiqueta_publicidad
                                     else etiqueta_ventas)" for i
    by (simp add: selectbox_def analisis_def nth_Cons' less_Suc_eq numeral_eq_Suc)
  then show ?thesis
    using etiquetas_distintas by (simp add: dashboard_def)
qed

lemma ejecutar_Some [simp]:
  "ejecutar l ui (Some t) = (Inr (dashboard ui (normalizar t)), Some t)"
  by (simp add: ejecutar_def)

lemma ejecutar_None_Inl [simp]: "ejecutar (Inl e) ui None = (Inl e, None)"
  by (simp add: ejecutar_def)

lemma ejecutar_None_Inr [simp]:
  "ejecutar (Inr t) ui None = (Inr (dashboard ui (normalizar t)), Some t)"
  by (simp add: ejecutar_def)

lemma sesion_Some:
  "sesion xs (Some t) = (map (\<lambda>(l, ui). Inr (dashboard ui (normalizar t))) xs, Some t)"
  by (induction xs) auto

subsection \<open>Properties of the router and of the charts\<close>

text \<open>
  C20. The \<open>if\<close>/\<open>elif\<close> chain over the radio's labels is total and exclusive:
  the second option runs pipeline B, the third pipeline C, and the first (or a
  stale index, through the radio's default) pipeline A; some view is always
  rendered.
\<close>

theorem router_total:
  "dashboard ui t =
     (if opcion_menu ui = 1 then vista_asesores t
      else if opcion_menu ui = 2 then vista_publicidad t
      else vista_ventas ui t) \<and> dashboard ui t \<noteq> []"
  by (simp add: dashboard_eq vista_asesores_def vista_publicidad_def vista_ventas_def Let_def)

text \<open>
  C10. Every chart the dashboard hands to Plotly meets Plotly's size contract,
  except the age scatter of pipeline C, whose sizes are the unfiltered
  \<open>% Clientes Nuevos\<close> column: the dashboard renders exactly when another view
  is selected or that column has no negative value.
\<close>

theorem graficos_renderizables:
  "list_all renderizable (dashboard ui t) \<longleftrightarrow>
     (opcion_menu ui \<noteq> 2 \<or> list_all (\<lambda>r. 0 \<le> clientes_nuevos r) t)"
proof -
  have a: "list_all renderizable (vista_ventas ui t)"
    by (simp add: vista_ventas_def Let_def)
  have b: "list_all renderizable (vista_asesores t)"
    by (simp add: vista_asesores_def puntos_antiguedad_def filtrar_no_negativos_def list_all_iff)
  have c: "list_all renderizable (vista_publicidad t) \<longleftrightarrow> list_all (\<lambda>r. 0 \<le> clientes_nuevos r) t"
    using renderizable_publicidad renderizable_edad by (simp add: vista_publicidad_def)
  show ?thesis using a b c by (simp add: dashboard_eq)
qed

theorem graficos_renderizables_witness:
  "list_all renderizable
     (dashboard \<lparr>opcion_menu = 2, zonas_elegidas = None, indice_zona = 0, indice_canal = 0\<rparr>
       [fila.make ''Norte'' ''Online'' (Some Marzo) ''A'' ''Ana'' 100 ''No'' 12 80 50 10 ''No'' 30])
   \<and> \<not> list_all renderizable
     (dashboard \<lparr>opcion_menu = 2, zonas_elegidas = None, indice_zona = 0, indice_canal = 0\<rparr>
       [fila.make ''Norte'' ''Online'' (Some Marzo) ''A'' ''Ana'' 100 ''No'' 12 80 50 (-5) ''No'' 30])"
  using graficos_renderizables [of "\<lparr>opcion_menu = 2, zonas_elegidas = None, indice_zona = 0, indice_canal = 0\<rparr>"
      "[fila.make ''Norte'' ''Online'' (Some Marzo) ''A'' ''Ana'' 100 ''No'' 12 80 50 10 ''No'' 30]"]
    graficos_renderizables [of "\<lparr>opcion_menu = 2, zonas_elegidas = None, indice_zona = 0, indice_canal = 0\<rparr>"
      "[fila.make ''Norte'' ''Online'' (Some Marzo) ''A'' ''Ana'' 100 ''No'' 12 80 50 (-5) ''No'' 30]"]
  by (simp add: fila.make_def)

end
