(* ===== verification/Pagina.thy ===== *)
theory Pagina
  imports Dashboard
begin

text \<open>
  The page the script writes, element by element, in the order of the source:
  the page configuration, title, introduction and style sheet (lines 11-28),
  written before the table is loaded, so that they are on the page even when
  \<open>load_data\<close> raises; the sidebar title and radio (lines 43-44); and the
  widgets, subheaders and charts of the selected view (lines 55-137). A chart
  element holds the chart of \<open>Interfaz\<close> and the colour arguments of its
  \<open>px\<close> call: the \<open>color_discrete_sequence\<close> it passes (\<open>None\<close> when it
  passes none), its \<open>color_discrete_map\<close> and the values of its \<open>color\<close>
  column in row order. \<open>colores_grafico\<close> gives the colour Plotly Express
  draws each series in: \<open>px\<close> takes the distinct values of the \<open>color\<close>
  column in order of first appearance and gives each the colour of
  \<open>color_discrete_map\<close>, or else the entry of the sequence at the number of
  colours assigned so far, modulo its length (\<open>asignar_colores\<close>);
  \<open>colores_series\<close> keeps the values that occur. Without a sequence
  \<open>px\<close> takes the colorway of the active template, which Streamlit's theme
  sets when the chart is drawn with \<open>st.plotly_chart\<close>: it is the parameter
  \<open>tema\<close>, left open. Strings are written as their UTF-8 bytes.
\<close>

subsection \<open>Palettes and colour assignment\<close>

definition colores_capacitacion :: "(string \<times> string) list" where
  "colores_capacitacion =
     [(''S'' @ [CHR 0xC3, CHR 0xAD], ''#31572c''), (''No'', ''#90a955''), (''Desconocido'', ''#ecf39e'')]"

definition colores_base :: "string list" where
  "colores_base = [''#31572c'', ''#4f772d'', ''#90a955'', ''#ecf39e'', ''#fefae0'']"

fun asignar_colores :: "string list \<Rightarrow> (string \<times> string) list \<Rightarrow> string list \<Rightarrow> (string \<times> string) list" where
  "asignar_colores sec m [] = m"
| "asignar_colores sec m (v # vs) =
     asignar_colores sec (if map_of m v = None then m @ [(v, sec ! (length m mod length sec))] else m) vs"

definition colores_series :: "string list \<Rightarrow> (string \<times> string) list \<Rightarrow> string list \<Rightarrow> (string \<times> string) list" where
  "colores_series sec m vs = filter (\<lambda>(v, c). v \<in> set vs) (asignar_colores sec m vs)"

subsection \<open>Page elements\<close>

datatype elemento =
    ConfiguracionPagina string string string
  | Titulo string
  | Markdown string bool
  | TituloLateral string
  | RadioLateral string "string list"
  | SelectorMultiple string "string list" "string list"
  | Subtitulo string
  | Columnas nat
  | Selector string "string list"
  | Grafico grafico "string list option" "(string \<times> string) list" "string list"
  | Excepcion error_carga

fun colores_grafico :: "string list \<Rightarrow> elemento \<Rightarrow> (string \<times> string) list" where
  "colores_grafico tema (Grafico g sec m vs) =
     colores_series (case sec of None \<Rightarrow> tema | Some s \<Rightarrow> s) m vs"
| "colores_grafico tema el = []"

definition cabecera :: "elemento list" where
  "cabecera =
     [ConfiguracionPagina ''Dashboard'' ''wide'' [CHR 0xF0, CHR 0x9F, CHR 0x93, CHR 0x8A],
      Titulo ''Dashboard de Caso y Estrategia'',
      Markdown ([CHR 0x0A] @ ''Este dashboard presenta un analisis de los datos relacionados con el caso Data y Estrategia.''
                @ [CHR 0x0A] @ ''            '') False,
      Markdown ([CHR 0x0A] @ ''<style>'' @ [CHR 0x0A] @ ''html, body, [data-testid='' @ [CHR 0x22]
                @ ''stAppViewContainer'' @ [CHR 0x22] @ ''] {'' @ [CHR 0x0A] @ ''    background-color: #e9d8a6;''
                @ [CHR 0x0A] @ ''    color: #001219;'' @ [CHR 0x0A] @ ''    font-family: '' @ [CHR 0x27]
                @ ''Segoe UI'' @ [CHR 0x27] @ '', sans-serif;'' @ [CHR 0x0A] @ ''}'' @ [CHR 0x0A] @ ''</style>''
                @ [CHR 0x0A]) True]"

definition barra_lateral :: "elemento list" where
  "barra_lateral =
     [TituloLateral ([CHR 0xF0, CHR 0x9F, CHR 0xA7, CHR 0xAD] @ '' Men'' @ [CHR 0xC3, CHR 0xBA] @ '' de an''
                     @ [CHR 0xC3, CHR 0xA1] @ ''lisis''),
      RadioLateral ''Selecciona:'' analisis]"

definition pagina_ventas :: "entrada_ui \<Rightarrow> fila_cat list \<Rightarrow> elemento list" where
  "pagina_ventas ui df =
     (let zonas_disponibles = zonas_disponibles df;
          zonas_select = multiselect zonas_disponibles (zonas_elegidas ui);
          df_filtrado = filtrar_zonas zonas_select df;
          df_radar = df_radar df_filtrado;
          opciones_zona = unicos_ordenados zona df_filtrado;
          opciones_canal = unicos_ordenados canal df_filtrado;
          zona_select = selectbox opciones_zona (indice_zona ui);
          canal_select = selectbox opciones_canal (indice_canal ui);
          df_linea = df_linea zona_select canal_select df_filtrado
      in [SelectorMultiple ([CHR 0xF0, CHR 0x9F, CHR 0x8F, CHR 0x99, CHR 0xEF, CHR 0xB8, CHR 0x8F] @ '' Selecciona Zonas:'')
            zonas_disponibles zonas_disponibles,
          Subtitulo ([CHR 0xF0, CHR 0x9F, CHR 0x93, CHR 0x8C] @ '' Vista Global: Zonas vs Canales''),
          Grafico (LineaPolar df_radar) (Some colores_base) [] (map (\<lambda>((z, c), s). c) df_radar),
          Subtitulo ([CHR 0xF0, CHR 0x9F, CHR 0x93, CHR 0xA6] @ '' Evoluci'' @ [CHR 0xC3, CHR 0xB3]
                     @ ''n de ventas por producto''),
          Columnas 2, Selector ''Zona:'' opciones_zona, Selector ''Canal:'' opciones_canal,
          Grafico (Lineas zona_select canal_select df_linea) None [] (map (\<lambda>((m, p), s). p) df_linea)])"

text \<open>
  The top-ten bars have no \<open>color\<close> column: one trace, written with the empty
  name, in the only colour of the given sequence.
\<close>

definition pagina_asesores :: "fila_cat list \<Rightarrow> elemento list" where
  "pagina_asesores df =
     (let df_top = df_top df;
          df_capacitado = df_capacitado df;
          df_filtrado = filtrar_no_negativos df
      in [Subtitulo ([CHR 0xF0, CHR 0x9F, CHR 0x8F, CHR 0x86] @ '' Top 10 Asesores por Monto de Venta''),
          Grafico (BarrasH df_top) (Some [colores_base ! 0]) [] [[]],
          Subtitulo ([CHR 0xF0, CHR 0x9F, CHR 0x93, CHR 0x9A] @ '' Comparaci'' @ [CHR 0xC3, CHR 0xB3]
                     @ ''n ventas: Capacitados vs No Capacitados''),
          Grafico (Barras df_capacitado) None colores_capacitacion (map fst df_capacitado),
          Subtitulo ([CHR 0xF0, CHR 0x9F, CHR 0x93, CHR 0x88] @ '' Antig'' @ [CHR 0xC3, CHR 0xBC]
                     @ ''edad vs Cumplimiento de Objetivos''),
          Grafico (Dispersion (puntos_antiguedad df_filtrado)) None colores_capacitacion
            (map capacitado df_filtrado)])"

definition pagina_publicidad :: "fila_cat list \<Rightarrow> elemento list" where
  "pagina_publicidad df =
     (let df_filtrado = filtrar_no_negativos df
      in [Subtitulo ([CHR 0xF0, CHR 0x9F, CHR 0x8E, CHR 0xAF] @ '' % Clientes Nuevos vs Inversi''
                     @ [CHR 0xC3, CHR 0xB3] @ ''n en Publicidad''),
          Grafico (Dispersion (puntos_publicidad df_filtrado)) (Some colores_base) []
            (map participacion df_filtrado),
          Subtitulo ([CHR 0xF0, CHR 0x9F, CHR 0x91, CHR 0xA5] @ '' Edad del Cliente vs Monto de Venta''),
          Grafico (Dispersion (puntos_edad df)) (Some colores_base) [] (map producto df)])"

definition pagina :: "entrada_ui \<Rightarrow> fila_cat list \<Rightarrow> elemento list" where
  "pagina ui df =
     barra_lateral @
     (case selectbox analisis (opcion_menu ui) of
        None \<Rightarrow> []
      | Some section \<Rightarrow>
          if section = etiqueta_ventas then pagina_ventas ui df
          else if section = etiqueta_asesores then pagina_asesores df
          else if section = etiqueta_publicidad then pagina_publicidad df
          else [])"

definition ejecutar_pagina ::
  "error_carga + fila_cruda list \<Rightarrow> entrada_ui \<Rightarrow> fila_cruda list cache
   \<Rightarrow> elemento list \<times> fila_cruda list cache" where
  "ejecutar_pagina lectura ui cache =
     (case load_data lectura cache of
        (Inl e, cache') \<Rightarrow> (cabecera @ [Excepcion e], cache')
      | (Inr df, cache') \<Rightarrow> (cabecera @ pagina ui (normalizar df), cache'))"

text \<open>
  Three advisers, one with a negative amount and one whose training flag is
  spelt without the accent, for the witnesses below.
\<close>

definition tabla_capacitacion :: "fila_cat list" where
  "tabla_capacitacion =
     [fila.make ''Norte'' ''Online'' (Some Marzo) ''A'' ''Ana'' 100 ''No'' 12 80 50 10 ''No'' 30,
      fila.make ''Sur'' ''Tienda'' (Some Enero) ''B'' ''Luis'' 50 ''Si'' 5 60 20 5 ''No'' 40,
      fila.make ''Sur'' ''Tienda'' (Some Enero) ''B'' ''Eva'' (-20) ''Desconocido'' 5 60 20 5 ''No'' 40]"

subsection \<open>Reading a page back\<close>

text \<open>
  The charts of a page in order and its subheaders.
\<close>

fun graficos :: "elemento list \<Rightarrow> grafico list" where
  "graficos [] = []"
| "graficos (Grafico g sec m vs # els) = g # graficos els"
| "graficos (el # els) = graficos els"

fun subtitulos :: "elemento list \<Rightarrow> string list" where
  "subtitulos [] = []"
| "subtitulos (Subtitulo s # els) = s # subtitulos els"
| "subtitulos (el # els) = subtitulos els"


subsection \<open>Colour assignment\<close>

lemma asignar_colores_prefijo:
  "map_of m v = Some c \<Longrightarrow> map_of (asignar_colores sec m vs) v = Some c"
  by (induction vs arbitrary: m) (auto simp: map_of_append)

lemma claves_asignar_colores:
  "fst ` set (asignar_colores sec m vs) = fst ` set m \<union> set vs"
  by (induction vs arbitrary: m) (auto simp: map_of_eq_None_iff)

lemma distinct_asignar_colores:
  "distinct (map fst m) \<Longrightarrow> distinct (map fst (asignar_colores sec m vs))"
  by (induction vs arbitrary: m) (auto simp: map_of_eq_None_iff)

lemma colores_asignar_colores:
  "map snd m = map (\<lambda>j. sec ! (j mod length sec)) [0..<length m] \<Longrightarrow>
   map snd (asignar_colores sec m vs)
     = map (\<lambda>j. sec ! (j mod length sec)) [0..<length (asignar_colores sec m vs)]"
  by (induction vs arbitrary: m) auto

lemma colores_nuevos:
  "map_of m v = None \<Longrightarrow> v \<in> set vs \<Longrightarrow>
   \<exists>j. map_of (asignar_colores sec m vs) v = Some (sec ! (j mod length sec))"
proof (induction vs arbitrary: m)
  case (Cons x vs)
  show ?case
  proof (cases "x = v")
    case True
    then have "map_of (m @ [(v, sec ! (length m mod length sec))]) v = Some (sec ! (length m mod length sec))"
      using Cons.prems(1) by (simp add: map_of_append map_add_def)
    then have "map_of (asignar_colores sec (m @ [(v, sec ! (length m mod length sec))]) vs) v
               = Some (sec ! (length m mod length sec))"
      by (rule asignar_colores_prefijo)
    then show ?thesis using True Cons.prems(1) by auto
  next
    case False
    then show ?thesis using Cons by (auto simp: map_of_append)
  qed
qed simp

lemma distinct_ciclo:
  assumes "distinct sec" and "sec \<noteq> []"
  shows "distinct (map (\<lambda>j. sec ! (j mod length sec)) [0..<n]) \<longleftrightarrow> n \<le> length sec"
proof
  assume d: "distinct (map (\<lambda>j. sec ! (j mod length sec)) [0..<n])"
  show "n \<le> length sec"
  proof (rule ccontr)
    assume "\<not> n \<le> length sec"
    then have "0 < n" "length sec < n" by simp_all
    moreover have "0 < length sec" using assms(2) by simp
    ultimately have "(\<lambda>j. sec ! (j mod length sec)) 0 = (\<lambda>j. sec ! (j mod length sec)) (length sec)"
      and "0 \<in> {0..<n}" "length sec \<in> {0..<n}" "(0::nat) \<noteq> length sec"
      by simp_all
    moreover have "inj_on (\<lambda>j. sec ! (j mod length sec)) {0..<n}"
      using d by (simp add: distinct_map)
    ultimately show False by (metis inj_onD)
  qed
next
  assume "n \<le> length sec"
  then have "inj_on (\<lambda>j. sec ! (j mod length sec)) {0..<n}"
    using assms(1) by (auto simp: inj_on_def nth_eq_iff_index_eq)
  then show "distinct (map (\<lambda>j. sec ! (j mod length sec)) [0..<n])"
    by (simp add: distinct_map)
qed

lemma colores_series_sin_mapa:
  "colores_series sec [] vs = asignar_colores sec [] vs"
proof -
  have "\<forall>x\<in>set (asignar_colores sec [] vs). fst x \<in> set vs"
    using claves_asignar_colores [of sec "[]" vs] by auto
  then show ?thesis by (auto simp: colores_series_def intro!: filter_True)
qed

lemma claves_colores_series: "fst ` set (colores_series sec m vs) = set vs"
proof -
  have "fst ` set (colores_series sec m vs) = fst ` set (asignar_colores sec m vs) \<inter> set vs"
    by (force simp: colores_series_def)
  then show ?thesis by (auto simp: claves_asignar_colores)
qed

lemma length_asignar_colores:
  "length (asignar_colores sec [] vs) = card (set vs)"
proof -
  have "card (fst ` set (asignar_colores sec [] vs)) = length (asignar_colores sec [] vs)"
    using distinct_asignar_colores [of "[]" sec vs] distinct_card [of "map fst (asignar_colores sec [] vs)"]
    by simp
  then show ?thesis using claves_asignar_colores [of sec "[]" vs] by simp
qed

lemma distinct_colores_series:
  assumes "distinct sec" and "sec \<noteq> []"
  shows "distinct (map snd (colores_series sec [] vs)) \<longleftrightarrow> card (set vs) \<le> length sec"
proof -
  have "map snd (colores_series sec [] vs) = map (\<lambda>j. sec ! (j mod length sec)) [0..<card (set vs)]"
    using colores_asignar_colores [of "[]" sec vs]
    by (simp add: colores_series_sin_mapa length_asignar_colores)
  then show ?thesis by (simp add: distinct_ciclo [OF assms])
qed

lemma color_serie:
  assumes "distinct (map fst m)" and "sec \<noteq> []" and "(v, col) \<in> set (colores_series sec m vs)"
  shows "map_of m v = Some col \<or> (map_of m v = None \<and> col \<in> set sec)"
proof -
  have "(v, col) \<in> set (asignar_colores sec m vs)" and v: "v \<in> set vs"
    using assms(3) by (auto simp: colores_series_def)
  with distinct_asignar_colores [OF assms(1)]
  have r: "map_of (asignar_colores sec m vs) v = Some col" by simp
  show ?thesis
  proof (cases "map_of m v")
    case (Some c)
    with r show ?thesis by (simp add: asignar_colores_prefijo)
  next
    case None
    then obtain j where "map_of (asignar_colores sec m vs) v = Some (sec ! (j mod length sec))"
      using colores_nuevos v by blast
    moreover have "sec ! (j mod length sec) \<in> set sec"
      using assms(2) by (intro nth_mem) simp
    ultimately show ?thesis using r None by simp
  qed
qed

lemma graficos_append [simp]: "graficos (xs @ ys) = graficos xs @ graficos ys"
  by (induction xs rule: graficos.induct) simp_all

lemma subtitulos_append [simp]: "subtitulos (xs @ ys) = subtitulos xs @ subtitulos ys"
  by (induction xs rule: subtitulos.induct) simp_all

lemma elementos_fijos [simp]:
  "graficos cabecera = []" "subtitulos cabecera = []"
  "graficos barra_lateral = []" "subtitulos barra_lateral = []"
  by (simp_all add: cabecera_def barra_lateral_def)

lemma paginas_vistas:
  "graficos (pagina_ventas ui df) = vista_ventas ui df"
  "graficos (pagina_asesores df) = vista_asesores df"
  "graficos (pagina_publicidad df) = vista_publicidad df"
  "length (subtitulos (pagina_ventas ui df)) = length (vista_ventas ui df)"
  "length (subtitulos (pagina_asesores df)) = length (vista_asesores df)"
  "length (subtitulos (pagina_publicidad df)) = length (vista_publicidad df)"
  by (simp_all add: pagina_ventas_def vista_ventas_def pagina_asesores_def vista_asesores_def
      pagina_publicidad_def vista_publicidad_def Let_def)

lemma pagina_dashboard:
  "graficos (pagina ui df) = dashboard ui df
   \<and> length (subtitulos (pagina ui df)) = length (dashboard ui df)"
  by (simp add: pagina_def dashboard_def paginas_vistas split: option.splits)

subsection \<open>Properties of the page\<close>

text \<open>
  C27. Every page starts with the four elements of lines 11-28, the first of
  them \<open>st.set_page_config\<close> as Streamlit requires, even when the load fails;
  a failed load shows them and the exception and nothing else; a rendered page
  has exactly one subheader per chart.
\<close>

theorem pagina_estructura:
  "\<exists>resto. fst (ejecutar_pagina l ui c) = cabecera @ resto
     \<and> (case fst (ejecutar l ui c) of
          Inl e \<Rightarrow> resto = [Excepcion e]
        | Inr g \<Rightarrow> length (subtitulos resto) = length g \<and> hd cabecera = ConfiguracionPagina
            ''Dashboard'' ''wide'' [CHR 0xF0, CHR 0x9F, CHR 0x93, CHR 0x8A])"
  using pagina_dashboard [of ui]
  by (auto simp: ejecutar_def ejecutar_pagina_def cabecera_def split: prod.splits sum.splits)

text \<open>
  C28. The radar of the sales view (line 65) passes \<open>colores_base\<close> as its
  colour sequence, one series per channel: the channels of the selected zones
  are drawn in distinct colours exactly when there are at most five of them,
  the length of \<open>colores_base\<close>; a sixth channel repeats the first colour.
  This holds under every theme, since the chart gives its own sequence.
\<close>

theorem radar_colores_distintos:
  "distinct (map snd (colores_grafico tema (pagina_ventas ui t ! 2)))
   \<longleftrightarrow> card (canal ` set (filtrar_zonas (multiselect (zonas_disponibles t) (zonas_elegidas ui)) t)) \<le> 5"
proof -
  let ?f = "filtrar_zonas (multiselect (zonas_disponibles t) (zonas_elegidas ui)) t"
  have b: "distinct colores_base" "colores_base \<noteq> []" "length colores_base = 5"
    by (simp_all add: colores_base_def)
  have "set (map (\<lambda>((z, c), s). c) (df_radar ?f)) = snd ` set (map fst (df_radar ?f))"
    by force
  also have "\<dots> = canal ` set ?f"
    by (simp add: df_radar_def map_fst_groupby_sum image_image)
  finally have c: "set (map (\<lambda>((z, c), s). c) (df_radar ?f)) = canal ` set ?f" .
  have "colores_grafico tema (pagina_ventas ui t ! 2)
        = colores_series colores_base [] (map (\<lambda>((z, c), s). c) (df_radar ?f))"
    by (simp add: pagina_ventas_def Let_def)
  then show ?thesis using c by (simp add: distinct_colores_series [OF b(1,2)] b(3))
qed

text \<open>
  C29. The tenure scatter of the advisers view (lines 110-112) passes no
  colour sequence and maps the training flags through
  \<open>colores_capacitacion\<close>: it has one series per flag of the table, and each
  is drawn in the colour the map gives it, or, for a flag outside the map (for
  instance one spelt without the accent), in a colour of the theme's colorway.
\<close>

theorem antiguedad_colores_capacitacion:
  assumes "tema \<noteq> []"
  shows "fst ` set (colores_grafico tema (pagina_asesores t ! 5))
           = capacitado ` set (filtrar_no_negativos t)
         \<and> (\<forall>(v, col) \<in> set (colores_grafico tema (pagina_asesores t ! 5)).
              map_of colores_capacitacion v = Some col
              \<or> (map_of colores_capacitacion v = None \<and> col \<in> set tema))"
proof -
  have d: "distinct (map fst colores_capacitacion)" by (simp add: colores_capacitacion_def)
  have e: "colores_grafico tema (pagina_asesores t ! 5)
           = colores_series tema colores_capacitacion (map capacitado (filtrar_no_negativos t))"
    by (simp add: pagina_asesores_def Let_def)
  show ?thesis
    using color_serie [OF d assms] unfolding e by (auto simp: claves_colores_series)
qed

theorem antiguedad_colores_capacitacion_witness:
  "[''#0068c9'', ''#83c9ff''] \<noteq> []
   \<and> colores_grafico [''#0068c9'', ''#83c9ff''] (pagina_asesores tabla_capacitacion ! 5)
       = [(''No'', ''#90a955''), (''Si'', ''#83c9ff'')]
   \<and> fst ` set (colores_grafico [''#0068c9'', ''#83c9ff''] (pagina_asesores tabla_capacitacion ! 5))
       = capacitado ` set (filtrar_no_negativos tabla_capacitacion)
   \<and> map_of colores_capacitacion ''No'' = Some ''#90a955''
   \<and> map_of colores_capacitacion ''Si'' = None \<and> ''#83c9ff'' \<in> set [''#0068c9'', ''#83c9ff'']"
proof -
  have h: "[''#0068c9'', ''#83c9ff''] \<noteq> []" by simp
  have c: "colores_grafico [''#0068c9'', ''#83c9ff''] (pagina_asesores tabla_capacitacion ! 5)
       = [(''No'', ''#90a955''), (''Si'', ''#83c9ff'')]"
    by code_simp
  note t = antiguedad_colores_capacitacion [OF h, of tabla_capacitacion]
  have "(''No'', ''#90a955'') \<in> set (colores_grafico [''#0068c9'', ''#83c9ff''] (pagina_asesores tabla_capacitacion ! 5))"
    and "(''Si'', ''#83c9ff'') \<in> set (colores_grafico [''#0068c9'', ''#83c9ff''] (pagina_asesores tabla_capacitacion ! 5))"
    using c by simp_all
  with t have n: "map_of colores_capacitacion ''No'' = Some ''#90a955''
      \<or> (map_of colores_capacitacion ''No'' = None \<and> ''#90a955'' \<in> set [''#0068c9'', ''#83c9ff''])"
    and s: "map_of colores_capacitacion ''Si'' = Some ''#83c9ff''
      \<or> (map_of colores_capacitacion ''Si'' = None \<and> ''#83c9ff'' \<in> set [''#0068c9'', ''#83c9ff''])"
    by blast+
  have "map_of colores_capacitacion ''Si'' \<noteq> Some ''#83c9ff''"
    and "''#90a955'' \<notin> set [''#0068c9'', ''#83c9ff'']"
    by (simp_all add: colores_capacitacion_def)
  then show ?thesis using h c t n s by auto
qed

text \<open>
  Six channels in the radar: the first and the sixth share the first colour of
  \<open>colores_base\<close>.
\<close>

lemma radar_seis_canales:
  "colores_series colores_base [] [''A'', ''B'', ''C'', ''D'', ''E'', ''F'']
   = [(''A'', ''#31572c''), (''B'', ''#4f772d''), (''C'', ''#90a955''), (''D'', ''#ecf39e''),
      (''E'', ''#fefae0''), (''F'', ''#31572c'')]"
  by code_simp

end
