(* ===== verification/Widgets.thy ===== *)
theory Widgets
  imports Pagina
begin

text \<open>
  The widget state of the dashboard and how user interactions change it. The
  state is \<open>entrada_ui\<close> of \<open>Interfaz\<close>: the sidebar radio (line 44), the zone
  multiselect (line 57) and the two select boxes of the drill-down (lines
  71-72). Each interaction triggers one rerun of the script; \<open>interactuar\<close>
  gives the widget state that rerun reads, or \<open>None\<close> when the interaction is
  impossible (the widget is not on the page, or the option does not exist).
  The transitions follow Streamlit's widget semantics:
  \<^item> the radio has the three options of \<open>analisis\<close>;
  \<^item> the multiselect's options are \<open>zonas_disponibles\<close>, fixed for the cached
    table; it returns its value in the order the zones were picked: a picked
    zone is appended, a removed one deleted, and the clear button empties it;
  \<^item> a widget without a \<open>key\<close> is identified by its parameters, options
    included: when a change of zones changes a select box's options, the
    select box is a new widget and starts again at its default index 0;
  \<^item> at the end of every run the state of a widget the run did not draw is
    dropped: \<open>limpiar_widgets\<close> reads the page of \<open>Pagina\<close> that the rerun
    draws and resets the widgets missing from it to their defaults (the
    multiselect to its default of every zone, a select box to index 0).
    Every interaction is followed by this cleanup; the widget interactions
    happen on the sales view, which draws all three widgets, so only a
    change of view resets anything.
  \<open>paso_ui\<close> is the step relation, and the reachable states are those reached
  from \<open>estado_inicial\<close> by its reflexive transitive closure.
\<close>

datatype evento =
    Radio nat
  | AgregarZona string
  | QuitarZona string
  | LimpiarZonas
  | ElegirZona nat
  | ElegirCanal nat

definition estado_inicial :: entrada_ui where
  "estado_inicial = \<lparr>opcion_menu = 0, zonas_elegidas = None, indice_zona = 0, indice_canal = 0\<rparr>"

definition zonas_select :: "fila_cat list \<Rightarrow> entrada_ui \<Rightarrow> string list" where
  "zonas_select t ui = multiselect (zonas_disponibles t) (zonas_elegidas ui)"

definition opciones_zona :: "fila_cat list \<Rightarrow> entrada_ui \<Rightarrow> string list" where
  "opciones_zona t ui = unicos_ordenados zona (filtrar_zonas (zonas_select t ui) t)"

definition opciones_canal :: "fila_cat list \<Rightarrow> entrada_ui \<Rightarrow> string list" where
  "opciones_canal t ui = unicos_ordenados canal (filtrar_zonas (zonas_select t ui) t)"

definition cambiar_zonas :: "fila_cat list \<Rightarrow> entrada_ui \<Rightarrow> string list \<Rightarrow> entrada_ui" where
  "cambiar_zonas t ui xs =
     (let ui' = ui\<lparr>zonas_elegidas := Some xs\<rparr>
      in ui'\<lparr>indice_zona := (if opciones_zona t ui' = opciones_zona t ui then indice_zona ui else 0),
             indice_canal := (if opciones_canal t ui' = opciones_canal t ui then indice_canal ui else 0)\<rparr>)"

fun es_multiselect :: "elemento \<Rightarrow> bool" where
  "es_multiselect (SelectorMultiple l os d) = True"
| "es_multiselect el = False"

fun es_selector :: "string \<Rightarrow> elemento \<Rightarrow> bool" where
  "es_selector e (Selector l os) = (l = e)"
| "es_selector e el = False"

definition limpiar_widgets :: "fila_cat list \<Rightarrow> entrada_ui \<Rightarrow> entrada_ui" where
  "limpiar_widgets t ui =
     (let els = pagina ui t
      in ui\<lparr>zonas_elegidas := (if list_ex es_multiselect els then zonas_elegidas ui else None),
            indice_zona := (if list_ex (es_selector ''Zona:'') els then indice_zona ui else 0),
            indice_canal := (if list_ex (es_selector ''Canal:'') els then indice_canal ui else 0)\<rparr>)"

fun interactuar :: "fila_cat list \<Rightarrow> entrada_ui \<Rightarrow> evento \<Rightarrow> entrada_ui option" where
  "interactuar t ui (Radio i) =
     (if i < length analisis then Some (limpiar_widgets t (ui\<lparr>opcion_menu := i\<rparr>)) else None)"
| "interactuar t ui (AgregarZona z) =
     (if opcion_menu ui = 0 \<and> z \<in> set (zonas_disponibles t) \<and> z \<notin> set (zonas_select t ui)
      then Some (limpiar_widgets t (cambiar_zonas t ui (zonas_select t ui @ [z]))) else None)"
| "interactuar t ui (QuitarZona z) =
     (if opcion_menu ui = 0 \<and> z \<in> set (zonas_select t ui)
      then Some (limpiar_widgets t (cambiar_zonas t ui (removeAll z (zonas_select t ui)))) else None)"
| "interactuar t ui LimpiarZonas =
     (if opcion_menu ui = 0 then Some (limpiar_widgets t (cambiar_zonas t ui [])) else None)"
| "interactuar t ui (ElegirZona i) =
     (if opcion_menu ui = 0 \<and> i < length (opciones_zona t ui)
      then Some (limpiar_widgets t (ui\<lparr>indice_zona := i\<rparr>)) else None)"
| "interactuar t ui (ElegirCanal i) =
     (if opcion_menu ui = 0 \<and> i < length (opciones_canal t ui)
      then Some (limpiar_widgets t (ui\<lparr>indice_canal := i\<rparr>)) else None)"

fun aplicar :: "fila_cat list \<Rightarrow> entrada_ui \<Rightarrow> evento list \<Rightarrow> entrada_ui option" where
  "aplicar t ui [] = Some ui"
| "aplicar t ui (ev # evs) = (case interactuar t ui ev of None \<Rightarrow> None | Some ui' \<Rightarrow> aplicar t ui' evs)"

inductive paso_ui :: "fila_cat list \<Rightarrow> entrada_ui \<Rightarrow> entrada_ui \<Rightarrow> bool" for t where
  evento: "interactuar t ui ev = Some ui' \<Longrightarrow> paso_ui t ui ui'"

abbreviation alcanzable :: "fila_cat list \<Rightarrow> entrada_ui \<Rightarrow> bool" where
  "alcanzable t ui \<equiv> (paso_ui t)\<^sup>*\<^sup>* estado_inicial ui"

text \<open>
  The invariant of the widget state: the radio index is one of the three
  options; the multiselect holds distinct zones of the table; outside the
  sales view its widgets are at their defaults; a select box's index is its
  default 0 or the index of one of its current options.
\<close>

definition estado_valido :: "fila_cat list \<Rightarrow> entrada_ui \<Rightarrow> bool" where
  "estado_valido t ui \<longleftrightarrow>
     opcion_menu ui < length analisis
     \<and> (case zonas_elegidas ui of None \<Rightarrow> True
        | Some xs \<Rightarrow> distinct xs \<and> set xs \<subseteq> set (zonas_disponibles t))
     \<and> (opcion_menu ui = 0 \<or> (zonas_elegidas ui = None \<and> indice_zona ui = 0 \<and> indice_canal ui = 0))
     \<and> (indice_zona ui = 0 \<or> indice_zona ui < length (opciones_zona t ui))
     \<and> (indice_canal ui = 0 \<or> indice_canal ui < length (opciones_canal t ui))"

text \<open>Two zones with one channel each, for the witnesses below.\<close>

definition tabla_ejemplo :: "fila_cat list" where
  "tabla_ejemplo =
     [fila.make ''Norte'' ''Online'' (Some Marzo) ''A'' ''Ana'' 100 ''No'' 12 80 50 10 ''No'' 30,
      fila.make ''Sur'' ''Tienda'' (Some Enero) ''B'' ''Luis'' 50 ''No'' 5 60 20 5 ''No'' 40]"

declare estado_inicial_def [modelo_simps] zonas_select_def [modelo_simps]
  opciones_zona_def [modelo_simps] opciones_canal_def [modelo_simps] cambiar_zonas_def [modelo_simps]
  tabla_ejemplo_def [modelo_simps]

inductive_cases paso_uiE: "paso_ui t ui ui'"

subsection \<open>The widgets a run draws\<close>

lemma pagina_opcion:
  "pagina ui t = barra_lateral @
     (if opcion_menu ui = 1 then pagina_asesores t
      else if opcion_menu ui = 2 then pagina_publicidad t else pagina_ventas ui t)"
proof -
  consider "opcion_menu ui = 0" | "opcion_menu ui = 1" | "opcion_menu ui = 2" | "2 < opcion_menu ui"
    by linarith
  then show ?thesis
    by cases (auto simp: pagina_def selectbox_def analisis_def etiqueta_ventas_def
        etiqueta_asesores_def etiqueta_publicidad_def)
qed

lemma pagina_widgets:
  "list_ex es_multiselect (pagina ui t) \<longleftrightarrow> opcion_menu ui \<notin> {1, 2}"
  "list_ex (es_selector ''Zona:'') (pagina ui t) \<longleftrightarrow> opcion_menu ui \<notin> {1, 2}"
  "list_ex (es_selector ''Canal:'') (pagina ui t) \<longleftrightarrow> opcion_menu ui \<notin> {1, 2}"
  by (simp_all add: pagina_opcion barra_lateral_def pagina_ventas_def pagina_asesores_def
      pagina_publicidad_def Let_def)

lemma limpiar_widgets_eq [simp]:
  "limpiar_widgets t ui =
     (if opcion_menu ui \<notin> {1, 2} then ui else ui\<lparr>zonas_elegidas := None, indice_zona := 0, indice_canal := 0\<rparr>)"
  by (simp add: limpiar_widgets_def pagina_widgets)

lemma opcion_menu_cambiar_zonas [simp]: "opcion_menu (cambiar_zonas t ui xs) = opcion_menu ui"
  by (simp add: cambiar_zonas_def Let_def)

subsection \<open>The options of the select boxes\<close>


lemma zonas_select_indices [simp]:
  "zonas_select t (ui\<lparr>indice_zona := a\<rparr>) = zonas_select t ui"
  "zonas_select t (ui\<lparr>indice_canal := b\<rparr>) = zonas_select t ui"
  "zonas_select t (ui\<lparr>opcion_menu := m\<rparr>) = zonas_select t ui"
  by (simp_all add: zonas_select_def)

lemma opciones_indices [simp]:
  "opciones_zona t (ui\<lparr>indice_zona := a\<rparr>) = opciones_zona t ui"
  "opciones_zona t (ui\<lparr>indice_canal := b\<rparr>) = opciones_zona t ui"
  "opciones_canal t (ui\<lparr>indice_zona := a\<rparr>) = opciones_canal t ui"
  "opciones_canal t (ui\<lparr>indice_canal := b\<rparr>) = opciones_canal t ui"
  "opciones_zona t (ui\<lparr>opcion_menu := m\<rparr>) = opciones_zona t ui"
  "opciones_canal t (ui\<lparr>opcion_menu := m\<rparr>) = opciones_canal t ui"
  by (simp_all add: opciones_zona_def opciones_canal_def)

lemma set_zonas_select: "set (zonas_select t ui) \<subseteq> set (zonas_disponibles t)"
  by (simp add: zonas_select_def set_multiselect)

lemma distinct_zonas_select:
  "estado_valido t ui \<Longrightarrow> distinct (zonas_select t ui)"
  by (auto simp: estado_valido_def zonas_select_def multiselect_def zonas_disponibles_def
      split: option.splits)

subsection \<open>Each interaction preserves the invariant\<close>

lemma valido_estado_inicial: "estado_valido t estado_inicial"
  by (simp add: estado_valido_def estado_inicial_def analisis_def)

lemma valido_cambiar_zonas:
  assumes "estado_valido t ui" and "opcion_menu ui = 0"
    and "distinct xs" and "set xs \<subseteq> set (zonas_disponibles t)"
  shows "estado_valido t (cambiar_zonas t ui xs)"
  using assms by (auto simp: estado_valido_def cambiar_zonas_def Let_def)

lemma interactuar_valido:
  assumes "estado_valido t ui" and "interactuar t ui ev = Some ui'"
  shows "estado_valido t ui'"
proof (cases ev)
  case (Radio i)
  then show ?thesis using assms
    by (auto simp: estado_valido_def analisis_def split: if_splits)
next
  case (AgregarZona z)
  then show ?thesis using assms distinct_zonas_select [OF assms(1)] set_zonas_select [of t ui]
    by (auto intro!: valido_cambiar_zonas split: if_splits)
next
  case (QuitarZona z)
  then show ?thesis using assms distinct_zonas_select [OF assms(1)] set_zonas_select [of t ui]
    by (auto intro!: valido_cambiar_zonas distinct_removeAll split: if_splits)
next
  case LimpiarZonas
  then show ?thesis using assms
    by (auto intro!: valido_cambiar_zonas split: if_splits)
next
  case (ElegirZona i)
  then show ?thesis using assms by (auto simp: estado_valido_def split: if_splits)
next
  case (ElegirCanal i)
  then show ?thesis using assms by (auto simp: estado_valido_def split: if_splits)
qed

subsection \<open>Traces of interactions\<close>

lemma aplicar_alcanzable:
  "aplicar t ui evs = Some ui' \<Longrightarrow> (paso_ui t)\<^sup>*\<^sup>* ui ui'"
proof (induction evs arbitrary: ui)
  case Nil
  then show ?case by simp
next
  case (Cons ev evs)
  then obtain u where u: "interactuar t ui ev = Some u" and r: "aplicar t u evs = Some ui'"
    by (auto split: option.splits)
  from u have "paso_ui t ui u" by (rule paso_ui.evento)
  then show ?case using Cons.IH [OF r] by (rule converse_rtranclp_into_rtranclp)
qed

lemma ida_y_vuelta:
  assumes "0 < i" and "i < length analisis"
  shows "aplicar t ui [Radio i, Radio 0] = Some estado_inicial"
  using assms by (auto simp: analisis_def estado_inicial_def)

subsection \<open>Properties of the widget state machine\<close>

text \<open>
  C21. Every widget state reachable by user interactions satisfies the
  invariant: in particular a select box never holds a stale index, so the
  drill-down shows the zone and channel at the positions the user picked.
\<close>

theorem ui_invariante:
  assumes "alcanzable t ui"
  shows "estado_valido t ui"
  using assms
proof (induction rule: rtranclp_induct)
  case base
  then show ?case by (rule valido_estado_inicial)
next
  case (step ui ui')
  then show ?case by (auto elim: paso_uiE intro: interactuar_valido)
qed

theorem ui_invariante_witness:
  "alcanzable tabla_ejemplo
     \<lparr>opcion_menu = 0, zonas_elegidas = Some [''Norte'', ''Sur''], indice_zona = 1, indice_canal = 0\<rparr>
   \<and> estado_valido tabla_ejemplo
     \<lparr>opcion_menu = 0, zonas_elegidas = Some [''Norte'', ''Sur''], indice_zona = 1, indice_canal = 0\<rparr>"
proof -
  have "aplicar tabla_ejemplo estado_inicial
          [QuitarZona ''Sur'', ElegirCanal 0, AgregarZona ''Sur'', ElegirZona 1]
        = Some \<lparr>opcion_menu = 0, zonas_elegidas = Some [''Norte'', ''Sur''], indice_zona = 1, indice_canal = 0\<rparr>"
    by code_simp
  then have h: "alcanzable tabla_ejemplo
     \<lparr>opcion_menu = 0, zonas_elegidas = Some [''Norte'', ''Sur''], indice_zona = 1, indice_canal = 0\<rparr>"
    by (rule aplicar_alcanzable)
  show ?thesis using h ui_invariante [OF h] by simp
qed

text \<open>
  C22. Leaving the sales view and coming back drops the user's zone selection
  and drill-down choices: the run of another view draws none of the sales
  widgets, so their state is dropped, and the run back to the sales view
  starts from the initial widget state, with every zone in the multiselect.
\<close>

theorem navegar_restablece_ventas:
  assumes "0 < i" and "i < length analisis"
  shows "\<not> list_ex es_multiselect (pagina (ui\<lparr>opcion_menu := i\<rparr>) t)
         \<and> \<not> list_ex (es_selector ''Zona:'') (pagina (ui\<lparr>opcion_menu := i\<rparr>) t)
         \<and> \<not> list_ex (es_selector ''Canal:'') (pagina (ui\<lparr>opcion_menu := i\<rparr>) t)
         \<and> aplicar t ui [Radio i, Radio 0] = Some estado_inicial
         \<and> zonas_select t estado_inicial = zonas_disponibles t"
proof -
  have "i = 1 \<or> i = 2" using assms by (auto simp: analisis_def)
  then show ?thesis using ida_y_vuelta [OF assms]
    by (auto simp: pagina_widgets zonas_select_def estado_inicial_def)
qed

text \<open>
  C23. The multiselect returns the zones in the order they were picked, but
  the dashboard does not depend on that order (nor on repeats): two selections
  with the same zones render the same charts.
\<close>

theorem ventas_orden_seleccion:
  assumes "set xs = set ys"
  shows "dashboard (ui\<lparr>zonas_elegidas := Some xs\<rparr>) t = dashboard (ui\<lparr>zonas_elegidas := Some ys\<rparr>) t"
  using assms by (simp add: dashboard_eq vista_ventas_def multiselect_def filtrar_zonas_def)

text \<open>
  C24. Deselecting the only selected zone is a possible interaction and is
  handled without error: the rerun renders the radar and the drill-down with
  empty tables, and the drill-down's title prints Python's \<open>None\<close> for the
  empty select boxes.
\<close>

theorem deseleccionar_ultima_zona:
  assumes "opcion_menu ui = 0" and "zonas_select t ui = [z]"
  shows "\<exists>ui'. interactuar t ui (QuitarZona z) = Some ui'
           \<and> dashboard ui' t = [LineaPolar [], Lineas None None []]
           \<and> map titulo_grafico (dashboard ui' t)
               = [None, Some (''Evoluci'' @ [CHR 0xC3, CHR 0xB3] @ ''n de ventas (None - None)'')]"
proof -
  let ?u = "cambiar_zonas t ui []"
  have i: "interactuar t ui (QuitarZona z) = Some ?u" using assms by simp
  have "zonas_elegidas ?u = Some []" and "opcion_menu ?u = 0"
    using assms(1) by (simp_all add: cambiar_zonas_def Let_def)
  then have d: "dashboard ?u t = [LineaPolar [], Lineas None None []]"
    by (simp add: dashboard_eq vista_ventas_vacia)
  show ?thesis using i d by (simp add: titulo_linea_def formato_fstring_def)
qed


theorem navegar_restablece_ventas_witness:
  "0 < (1::nat) \<and> 1 < length analisis
   \<and> aplicar tabla_ejemplo
       \<lparr>opcion_menu = 0, zonas_elegidas = Some [''Norte''], indice_zona = 0, indice_canal = 0\<rparr>
       [Radio 1, Radio 0] = Some estado_inicial
   \<and> zonas_select tabla_ejemplo estado_inicial = [''Norte'', ''Sur'']"
proof -
  have h: "0 < (1::nat)" "1 < length analisis" by (simp_all add: analisis_def)
  have z: "zonas_disponibles tabla_ejemplo = [''Norte'', ''Sur'']" by code_simp
  show ?thesis
    using h z navegar_restablece_ventas [OF h,
        of "\<lparr>opcion_menu = 0, zonas_elegidas = Some [''Norte''], indice_zona = 0, indice_canal = 0\<rparr>"
        tabla_ejemplo]
    by simp
qed

theorem ventas_orden_seleccion_witness:
  "set [''Sur'', ''Norte''] = set [''Norte'', ''Sur'']
   \<and> dashboard \<lparr>opcion_menu = 0, zonas_elegidas = Some [''Sur'', ''Norte''], indice_zona = 1, indice_canal = 0\<rparr>
       tabla_ejemplo
     = dashboard \<lparr>opcion_menu = 0, zonas_elegidas = Some [''Norte'', ''Sur''], indice_zona = 1, indice_canal = 0\<rparr>
       tabla_ejemplo"
proof -
  have h: "set [''Sur'', ''Norte''] = set [''Norte'', ''Sur'']" by auto
  show ?thesis
    using h ventas_orden_seleccion [OF h,
        of "\<lparr>opcion_menu = 0, zonas_elegidas = None, indice_zona = 1, indice_canal = 0\<rparr>" tabla_ejemplo]
    by simp
qed

theorem deseleccionar_ultima_zona_witness:
  "opcion_menu estado_inicial = 0 \<and> zonas_select (take 1 tabla_ejemplo) estado_inicial = [''Norte'']
   \<and> (\<exists>ui'. interactuar (take 1 tabla_ejemplo) estado_inicial (QuitarZona ''Norte'') = Some ui'
        \<and> dashboard ui' (take 1 tabla_ejemplo) = [LineaPolar [], Lineas None None []]
        \<and> map titulo_grafico (dashboard ui' (take 1 tabla_ejemplo))
            = [None, Some (''Evoluci'' @ [CHR 0xC3, CHR 0xB3] @ ''n de ventas (None - None)'')])"
proof -
  have h1: "opcion_menu estado_inicial = 0" by (simp add: estado_inicial_def)
  have h2: "zonas_select (take 1 tabla_ejemplo) estado_inicial = [''Norte'']" by code_simp
  show ?thesis using h1 h2 deseleccionar_ultima_zona [OF h1 h2] by blast
qed

subsection \<open>The drill-down's select boxes are independent\<close>

text \<open>
  The channel select box offers the channels of all the selected zones, not
  those of the chosen zone, so a reachable state can pair a zone with a
  channel it has no sales on: here the two zones each have sales, on different
  channels, and the drill-down is empty.
\<close>

lemma drill_down_vacio_alcanzable:
  "alcanzable tabla_ejemplo \<lparr>opcion_menu = 0, zonas_elegidas = None, indice_zona = 0, indice_canal = 1\<rparr>
   \<and> dashboard \<lparr>opcion_menu = 0, zonas_elegidas = None, indice_zona = 0, indice_canal = 1\<rparr> tabla_ejemplo
     = [LineaPolar [((''Norte'', ''Online''), 100), ((''Sur'', ''Tienda''), 50)],
        Lineas (Some ''Norte'') (Some ''Tienda'') []]"
proof
  have "aplicar tabla_ejemplo estado_inicial [ElegirCanal 1]
        = Some \<lparr>opcion_menu = 0, zonas_elegidas = None, indice_zona = 0, indice_canal = 1\<rparr>"
    by code_simp
  then show "alcanzable tabla_ejemplo \<lparr>opcion_menu = 0, zonas_elegidas = None, indice_zona = 0, indice_canal = 1\<rparr>"
    by (rule aplicar_alcanzable)
  show "dashboard \<lparr>opcion_menu = 0, zonas_elegidas = None, indice_zona = 0, indice_canal = 1\<rparr> tabla_ejemplo
     = [LineaPolar [((''Norte'', ''Online''), 100), ((''Sur'', ''Tienda''), 50)],
        Lineas (Some ''Norte'') (Some ''Tienda'') []]"
    by code_simp
qed

end
