(* ===== verification/Aplicacion.thy ===== *)
theory Aplicacion
  imports Widgets
begin

text \<open>
  The dashboard as a running application: the loader's cache, which lives as
  long as the server process and is shared by every browser session, and the
  widget state of one browser session. Two kinds of action trigger a run of
  the script. \<open>Recargar\<close> opens the page anew (a first visit or a browser
  reload): a new session starts with the widgets at their defaults.
  \<open>Interactuar\<close> is an interaction with a widget on the page, possible only
  when the last run drew the widgets, i.e. when the table is loaded. A run
  whose read fails stops at line 33 before any widget is drawn, so the session
  keeps no widget state. Every action carries what \<open>read_parquet\<close> would return
  if the run called it. \<open>paso_servidor\<close> runs one of several browser sessions
  that share the cache, as the Streamlit server does for several open tabs;
  each session records whether its last run drew the widgets, so a session
  whose last run failed cannot interact even after another session has
  filled the cache: it has to reload first.
\<close>

datatype accion = Recargar | Interactuar evento

type_synonym estado_app = "entrada_ui \<times> fila_cruda list cache"

fun paso_app ::
  "error_carga + fila_cruda list \<Rightarrow> accion \<Rightarrow> estado_app
   \<Rightarrow> ((error_carga + grafico list) \<times> estado_app) option" where
  "paso_app l Recargar (ui, c) =
     (case ejecutar l estado_inicial c of (salida, c') \<Rightarrow> Some (salida, (estado_inicial, c')))"
| "paso_app l (Interactuar ev) (ui, c) =
     (case c of
        None \<Rightarrow> None
      | Some t \<Rightarrow>
          (case interactuar (normalizar t) ui ev of
             None \<Rightarrow> None
           | Some ui' \<Rightarrow> (case ejecutar l ui' c of (salida, c') \<Rightarrow> Some (salida, (ui', c')))))"

fun sesion_app ::
  "((error_carga + fila_cruda list) \<times> accion) list \<Rightarrow> estado_app
   \<Rightarrow> ((error_carga + grafico list) list \<times> estado_app) option" where
  "sesion_app [] s = Some ([], s)"
| "sesion_app ((l, a) # xs) s =
     (case paso_app l a s of
        None \<Rightarrow> None
      | Some (salida, s') \<Rightarrow>
          (case sesion_app xs s' of None \<Rightarrow> None | Some (salidas, s'') \<Rightarrow> Some (salida # salidas, s'')))"

text \<open>
  The invariant of the application state: before the first successful read
  the widgets are at their defaults; afterwards the widget state is reachable
  over the cached table.
\<close>

definition app_valida :: "estado_app \<Rightarrow> bool" where
  "app_valida s =
     (case s of (ui, None) \<Rightarrow> ui = estado_inicial | (ui, Some t) \<Rightarrow> alcanzable (normalizar t) ui)"

definition salida_de :: "fila_cruda list \<Rightarrow> error_carga + grafico list \<Rightarrow> bool" where
  "salida_de t salida =
     (case salida of Inl e \<Rightarrow> True | Inr g \<Rightarrow> \<exists>ui. alcanzable (normalizar t) ui \<and> g = dashboard ui (normalizar t))"

text \<open>
  The server holds, per open browser session, its widget state and whether
  its last run drew the widgets (it rendered the charts rather than stopping at
  the load error), and the one cache the sessions share; a run of session
  \<open>k\<close> is a run of \<open>paso_app\<close> on that session's widget state and the shared
  cache, and an interaction is possible only on a page whose widgets are
  drawn.
\<close>

type_synonym estado_servidor = "(entrada_ui \<times> bool) list \<times> fila_cruda list cache"

fun paso_servidor ::
  "error_carga + fila_cruda list \<Rightarrow> nat \<times> accion \<Rightarrow> estado_servidor
   \<Rightarrow> ((error_carga + grafico list) \<times> estado_servidor) option" where
  "paso_servidor l (k, a) (uis, c) =
     (if k < length uis \<and> (case a of Recargar \<Rightarrow> True | Interactuar ev \<Rightarrow> snd (uis ! k)) then
        (case paso_app l a (fst (uis ! k), c) of
           None \<Rightarrow> None
         | Some (salida, (ui', c')) \<Rightarrow> Some (salida, (uis[k := (ui', \<not> isl salida)], c')))
      else None)"

text \<open>A one-row file, for the witnesses below.\<close>

definition tabla_cruda_ejemplo :: "fila_cruda list" where
  "tabla_cruda_ejemplo = [fila.make ''Norte'' ''Online'' ''Marzo'' ''A'' ''Ana'' 100 ''No'' 12 80 50 10 ''No'' 30]"

subsection \<open>Each run keeps the invariant\<close>

lemma salida_de_isl: "isl salida \<Longrightarrow> salida_de t salida"
  by (cases salida) (simp_all add: salida_de_def)

lemma salida_de_estado:
  "alcanzable (normalizar t) ui \<Longrightarrow> salida_de t (Inr (dashboard ui (normalizar t)))"
  by (auto simp: salida_de_def)

lemma paso_app_valida:
  assumes "app_valida (ui, c)" and "paso_app l a (ui, c) = Some (salida, (ui', c'))"
  shows "app_valida (ui', c') \<and> (\<forall>t. c = Some t \<longrightarrow> c' = Some t)
         \<and> (case c' of None \<Rightarrow> isl salida | Some t \<Rightarrow> salida_de t salida)"
proof (cases a)
  case Recargar
  then show ?thesis using assms
    by (cases c; cases l) (auto simp: app_valida_def salida_de_estado)
next
  case (Interactuar ev)
  then obtain t where c: "c = Some t" using assms(2) by (cases c) auto
  with Interactuar assms(2) have i: "interactuar (normalizar t) ui ev = Some ui'" and c': "c' = Some t"
    and o: "salida = Inr (dashboard ui' (normalizar t))"
    by (auto split: option.splits)
  from i have "paso_ui (normalizar t) ui ui'" by (rule paso_ui.evento)
  with assms(1) c have "alcanzable (normalizar t) ui'"
    by (simp add: app_valida_def)
  then show ?thesis using c c' o by (simp add: app_valida_def salida_de_estado)
qed

lemma sesion_app_valida:
  assumes "app_valida (ui, c)" and "sesion_app xs (ui, c) = Some (salidas, (ui', c'))"
  shows "app_valida (ui', c') \<and> (\<forall>t. c = Some t \<longrightarrow> c' = Some t)
         \<and> (case c' of None \<Rightarrow> list_all isl salidas | Some t \<Rightarrow> list_all (salida_de t) salidas)"
  using assms
proof (induction xs arbitrary: ui c salidas)
  case Nil
  then show ?case by (cases c') auto
next
  case (Cons x xs)
  obtain l a where x: "x = (l, a)" by (cases x)
  obtain salida u1 c1 salidas' where p: "paso_app l a (ui, c) = Some (salida, (u1, c1))"
    and r: "sesion_app xs (u1, c1) = Some (salidas', (ui', c'))" and s: "salidas = salida # salidas'"
    using Cons.prems(2) x by (auto split: option.splits prod.splits)
  note h1 = paso_app_valida [OF Cons.prems(1) p]
  note h2 = Cons.IH [OF conjunct1 [OF h1] r]
  show ?case
  proof (cases c')
    case None
    with h2 have "c1 = None" by (cases c1) auto
    with h1 h2 None s show ?thesis by auto
  next
    case (Some t)
    have "salida_de t salida"
      using h1 h2 Some by (cases c1) (auto simp: salida_de_isl)
    with h1 h2 Some s show ?thesis by auto
  qed
qed

subsection \<open>Runs of different sessions\<close>

lemma paso_app_cache:
  "paso_app l a (ui, Some t) = Some (salida, (ui', c')) \<Longrightarrow> c' = Some t"
  by (cases a) (auto split: option.splits)

subsection \<open>Properties of the application\<close>

text \<open>
  C26. Once the table is cached, runs of different browser sessions commute:
  a run of session \<open>k\<close> followed by a run of another session \<open>j\<close> gives both
  sessions the same outputs and the server the same state as the two runs in
  the other order, whatever the file holds at each run. (Before the cache is
  filled they need not commute: which run reads the file first decides which
  one fails.)
\<close>

theorem sesiones_conmutan:
  assumes "k \<noteq> j"
    and "paso_servidor l1 (k, a) (uis, Some t) = Some (o1, s1)"
    and "paso_servidor l2 (j, b) s1 = Some (o2, s2)"
  shows "\<exists>s1'. paso_servidor l2 (j, b) (uis, Some t) = Some (o2, s1')
              \<and> paso_servidor l1 (k, a) s1' = Some (o1, s2)"
proof -
  let ?g = "\<lambda>a u. case a of Recargar \<Rightarrow> True | Interactuar ev \<Rightarrow> snd u"
  obtain u1 c1 where p1: "paso_app l1 a (fst (uis ! k), Some t) = Some (o1, (u1, c1))"
    and k: "k < length uis" and g1: "?g a (uis ! k)" and s1: "s1 = (uis[k := (u1, \<not> isl o1)], c1)"
    using assms(2) by (auto split: if_splits option.splits)
  have c1: "c1 = Some t" using p1 by (rule paso_app_cache)
  obtain u2 c2 where p2: "paso_app l2 b (fst (uis[k := (u1, \<not> isl o1)] ! j), Some t) = Some (o2, (u2, c2))"
    and j: "j < length uis" and g2: "?g b (uis[k := (u1, \<not> isl o1)] ! j)"
    and s2: "s2 = (uis[k := (u1, \<not> isl o1), j := (u2, \<not> isl o2)], c2)"
    using assms(3) s1 c1 by (auto split: if_splits option.splits)
  have c2: "c2 = Some t" using p2 by (rule paso_app_cache)
  have p2': "paso_app l2 b (fst (uis ! j), Some t) = Some (o2, (u2, Some t))"
    using p2 c2 assms(1) by simp
  have g2': "?g b (uis ! j)" using g2 assms(1) by (cases b) simp_all
  have p1': "paso_app l1 a (fst (uis[j := (u2, \<not> isl o2)] ! k), Some t) = Some (o1, (u1, Some t))"
    using p1 c1 assms(1) by simp
  have g1': "?g a (uis[j := (u2, \<not> isl o2)] ! k)" using g1 assms(1) by (cases a) simp_all
  have "uis[j := (u2, \<not> isl o2), k := (u1, \<not> isl o1)] = uis[k := (u1, \<not> isl o1), j := (u2, \<not> isl o2)]"
    using assms(1) by (rule list_update_swap [symmetric])
  then show ?thesis
    using p1' p2' g1' g2' j k s2 c2 by auto
qed

theorem sesiones_conmutan_witness:
  "(0::nat) \<noteq> 1
   \<and> paso_servidor (Inl (LoadError ''Data/cleaned.parquet'')) (0, Interactuar (Radio 1))
       ([(estado_inicial, True), (estado_inicial, False)], Some tabla_cruda_ejemplo)
     = Some (Inr (vista_asesores (normalizar tabla_cruda_ejemplo)),
             ([(estado_inicial\<lparr>opcion_menu := 1\<rparr>, True), (estado_inicial, False)], Some tabla_cruda_ejemplo))
   \<and> paso_servidor (Inr []) (1, Recargar)
       ([(estado_inicial\<lparr>opcion_menu := 1\<rparr>, True), (estado_inicial, False)], Some tabla_cruda_ejemplo)
     = Some (Inr (vista_ventas estado_inicial (normalizar tabla_cruda_ejemplo)),
             ([(estado_inicial\<lparr>opcion_menu := 1\<rparr>, True), (estado_inicial, True)], Some tabla_cruda_ejemplo))
   \<and> (\<exists>s1'. paso_servidor (Inr []) (1, Recargar)
               ([(estado_inicial, True), (estado_inicial, False)], Some tabla_cruda_ejemplo)
             = Some (Inr (vista_ventas estado_inicial (normalizar tabla_cruda_ejemplo)), s1')
           \<and> paso_servidor (Inl (LoadError ''Data/cleaned.parquet'')) (0, Interactuar (Radio 1)) s1'
             = Some (Inr (vista_asesores (normalizar tabla_cruda_ejemplo)),
                     ([(estado_inicial\<lparr>opcion_menu := 1\<rparr>, True), (estado_inicial, True)],
                      Some tabla_cruda_ejemplo)))"
proof -
  have h0: "(0::nat) \<noteq> 1" by simp
  have h1: "paso_servidor (Inl (LoadError ''Data/cleaned.parquet'')) (0, Interactuar (Radio 1))
       ([(estado_inicial, True), (estado_inicial, False)], Some tabla_cruda_ejemplo)
     = Some (Inr (vista_asesores (normalizar tabla_cruda_ejemplo)),
             ([(estado_inicial\<lparr>opcion_menu := 1\<rparr>, True), (estado_inicial, False)], Some tabla_cruda_ejemplo))"
    by code_simp
  have h2: "paso_servidor (Inr []) (1, Recargar)
       ([(estado_inicial\<lparr>opcion_menu := 1\<rparr>, True), (estado_inicial, False)], Some tabla_cruda_ejemplo)
     = Some (Inr (vista_ventas estado_inicial (normalizar tabla_cruda_ejemplo)),
             ([(estado_inicial\<lparr>opcion_menu := 1\<rparr>, True), (estado_inicial, True)], Some tabla_cruda_ejemplo))"
    by code_simp
  show ?thesis using h0 h1 h2 sesiones_conmutan [OF h0 h1 h2] by blast
qed

text \<open>
  A session whose last run failed cannot interact, even once another session
  has filled the cache; after a reload it can.
\<close>

lemma sesion_fallida_recarga:
  "paso_servidor (Inr []) (1, Interactuar (Radio 1))
     ([(estado_inicial, True), (estado_inicial, False)], Some tabla_cruda_ejemplo) = None
   \<and> paso_servidor (Inr []) (1, Recargar)
       ([(estado_inicial, True), (estado_inicial, False)], Some tabla_cruda_ejemplo)
     = Some (Inr (vista_ventas estado_inicial (normalizar tabla_cruda_ejemplo)),
             ([(estado_inicial, True), (estado_inicial, True)], Some tabla_cruda_ejemplo))"
  by code_simp

end
