(* ===== verification/Spec2Isabelle.thy ===== *)
theory Spec2Isabelle
  imports Aplicacion Pagina
begin

text \<open>
  \<^bold>\<open>A verification model of the sales dashboard \<open>src/dashboard.py\<close>.\<close>

  \<^bold>\<open>The program.\<close> A Streamlit script that reruns from the top on every
  interaction. It loads one parquet table through a cached loader (lines 5-7,
  33), turns the month column into an ordered categorical over five labels
  (lines 32-38), offers three analyses in a sidebar radio (lines 42-44) and,
  through an \<open>if\<close>/\<open>elif\<close> chain, runs one of three aggregation pipelines whose
  tables go to Plotly charts: A, sales by zone and channel with a drill-down by
  month and product (lines 55-81); B, the top ten advisors, sales by training
  flag and a tenure scatter (lines 84-115); C, two scatters of customers against
  advertising (lines 118-137).

  \<^bold>\<open>Theories and what they model.\<close>
  \<^item> \<open>Prelude\<close>: the string and tuple orders (Python's \<open>sorted\<close> and pandas' sort of
    group keys are byte-wise lexicographic), \<open>posicion\<close> (the code lookup of
    \<open>pd.Categorical\<close>), the brute-force conditional sum \<open>suma_donde\<close>, and
    facts on descending order.
  \<^item> \<open>Tabla\<close>: a row is the record \<open>'m fila\<close> with the thirteen columns; the
    month type \<open>mes\<close> with the calendar order (a \<open>linorder\<close> instance);
    \<open>meses\<close>, \<open>categoria_mes\<close> and \<open>normalizar\<close> model lines 32-38 (a label
    outside the five becomes \<open>None\<close>, pandas' NaN).
  \<^item> \<open>GroupBy\<close>: the pandas operations the pipelines call. \<open>groupby_sum\<close> is
    \<open>groupby(key)[col].sum()\<close> with \<open>sort=True\<close>: a single pass with a running
    total per key (\<open>acumular\<close>, \<open>agrupar\<close>) followed by a sort of the groups;
    \<open>groupby_sum_dropna\<close> drops NaN keys; \<open>groupby_sum_categorico\<close> re-indexes
    by all categories times the sorted observed values of the second key,
    filling 0 (pandas' \<open>observed=False\<close>); \<open>sort_values_desc\<close> is \<open>nargsort\<close>
    for \<open>ascending=False\<close>; \<open>unicos_ordenados\<close> is \<open>sorted(col.unique())\<close>.
  \<^item> \<open>Interfaz\<close>: the interfaces with Streamlit and Plotly. \<open>entrada_ui\<close> is the
    widget state of one rerun (radio index, multiselect choice, select-box
    indices), \<open>selectbox\<close> and \<open>multiselect\<close> what the widgets return,
    \<open>grafico\<close> the chart handed to Plotly with its table, and \<open>renderizable\<close>
    the part of Plotly's contract the code relies on (marker sizes not
    negative).
  \<^item> \<open>Ventas\<close>, \<open>Asesores\<close>, \<open>Publicidad\<close>: the three pipelines, one definition
    per derived table (\<open>df_radar\<close>, \<open>df_linea\<close>, \<open>df_top\<close>, \<open>df_capacitado\<close>,
    \<open>filtrar_no_negativos\<close>, the scatter point lists) and one per view
    (\<open>vista_ventas\<close>, \<open>vista_asesores\<close>, \<open>vista_publicidad\<close>), named after the
    source's variables.
  \<^item> \<open>Cargador\<close>: \<open>load_data\<close> under \<open>st.cache_data\<close>, generic in the table
    type: the cache is the state, a successful read fills it, a raising read
    leaves it empty.
  \<^item> \<open>Dashboard\<close>: the labels of the radio (as UTF-8 bytes), the router
    \<open>dashboard\<close>, one rerun \<open>ejecutar\<close> (load, normalize, route) and a
    session \<open>sesion\<close> of reruns in one process.
  \<^item> \<open>Pagina\<close>: the page a run writes, element by element: page configuration,
    title, introduction and style sheet (lines 11-28, written before the load,
    so also on a failed run), sidebar title and radio, and each view's
    multiselect, subheaders, column layout, select boxes and charts. A chart
    element carries the colour arguments of its \<open>px\<close> call (lines 47-52,
    63-66, 77-80, 92-95, 101-104, 110-114, 122-127, 131-136);
    \<open>colores_grafico\<close> gives the colour Plotly Express draws each series in (\<open>asignar_colores\<close>: \<open>color_discrete_map\<close> first,
    then the sequence cycled by the number of colours assigned so far). A chart
    that passes no sequence takes the colorway of the theme Streamlit applies,
    which is a parameter \<open>tema\<close> of the model.
  \<^item> \<open>Widgets\<close>: the widget state machine. \<open>interactuar\<close> is one user interaction
    (radio click, zone added to or removed from the multiselect, multiselect
    cleared, zone or channel picked in a select box) and the widget state the
    following rerun leaves: the multiselect returns zones in pick order, a
    select box whose options change is a new widget and restarts at index 0,
    and \<open>limpiar_widgets\<close> drops the state of every widget that the page of
    \<open>Pagina\<close> drawn by the rerun does not contain (Streamlit keeps only the
    state of widgets drawn in the last run). \<open>paso_ui\<close> is the step relation,
    its reflexive transitive closure from \<open>estado_inicial\<close> the reachable
    states, \<open>aplicar\<close> runs a list of interactions.
  \<^item> \<open>Aplicacion\<close>: the running application. Its state is the widget state of
    one browser session with the process-wide loader cache; \<open>paso_app\<close> is
    one run triggered by a page load (\<open>Recargar\<close>: a new session, widgets at
    their defaults, cache kept) or by a widget interaction (possible only when
    the last run drew the widgets), and \<open>sesion_app\<close> a sequence of them.
    \<open>app_valida\<close> is its invariant; \<open>paso_servidor\<close> runs one of several
    sessions that share the cache, each recording whether its last run drew
    the widgets.
  \<^item> This theory: the properties of sessions, which span the loader, the widgets,
    the router and the pipelines.

  \<^bold>\<open>What is proved.\<close> The single-pass group-by equals the brute-force per-key
  sum (C2) and loses no sale (C17); the radar table has one row per present
  (zone, channel) pair with its exact sum for every zone selection (C1) and
  does not depend on row order (C18); the drill-down is in calendar order
  (C6) and shows the month labels Enero to Mayo in that order, once per
  product (C16), is independent of row order (C7), empty exactly when no row
  matches (C12), and silently leaves out rows whose month is outside the
  domain (C8); the top-ten table is maximal (C3), of the right length,
  descending and duplicate-free (C4), exactly the advisors fewer than ten
  others outsell when totals are distinct (C13), and independent of the
  sort's tie-breaking in its amounts (C5); the \<open>>= 0\<close> filter removes exactly
  the negative rows (C9); every chart meets Plotly's size contract except the
  unfiltered age scatter (C10); a label is normalized to a month exactly when
  it is that month's calendar name (C15); the router is total (C20); an empty
  selection renders empty charts (C11); the default selection aggregates the
  whole table (C19); the first successful load fixes the table for the
  process and failed loads are retried (C14). Every reachable widget state
  satisfies the invariant \<open>estado_valido\<close>, by rule induction over the steps
  (C21); leaving the sales view draws none of its widgets, so returning starts
  from the initial widget state (C22); the charts depend on the set of
  selected zones, not on the order the multiselect returns them (C23);
  deselecting the last zone renders empty charts titled with \<open>None\<close> (C24).
  Over any sequence of page loads and interactions, every output is a load
  error or the dashboard of a reachable widget state over the cached table
  (C25); once the table is cached, runs of different browser sessions commute
  (C26). Every page starts with the configuration, title and style, a failed
  load shows only these and the exception, and a rendered page has one
  subheader per chart (C27); the radar draws its channels in distinct colours
  exactly when there are at most five (C28); the tenure scatter draws each
  training flag in the colour of \<open>colores_capacitacion\<close>, or a flag outside
  the map in a theme colour (C29). The three pipelines refine contracts
  stated without the pandas operations, \<open>espec_asesores\<close>, \<open>espec_ventas\<close>
  and \<open>espec_publicidad\<close>, taken from section 4.4 of the specification (C30,
  C31, C32). Properties with hypotheses have witnesses evaluated by
  \<open>simp\<close> or \<open>code_simp\<close> on small tables.

  \<^bold>\<open>Modelling choices.\<close> Numeric columns are exact reals, so float rounding in
  sums is not modelled and sums are order-independent. NaN appears only where
  the code creates it (the categorical month); the other columns are taken as
  cleaned. The sort behind \<open>sort_values\<close> is modelled as stable; pandas' default
  kind is numpy's quicksort, which is not stable in general, so no property
  depends on the order of ties: C5 states what holds for any tie order. The
  categorical group-by follows pandas 1.x and 2.x (\<open>observed=False\<close>). There are no loops in the script besides the
  library's own, so no fuel or partial functions are needed: every definition
  is total and executable.

  \<^bold>\<open>Not modelled.\<close> Hover columns, text templates and chart templates
  (presentation only, no data flows through them). Plotly's drawing beyond the
  size contract, the titles and the colour assignment, and the colorway of
  Streamlit's theme (left as a parameter): the renderer is an
  external collaborator (spec, section 4.5), so its component stays partly
  modelled. The parquet reader: its outcome is an input of each run. NaN in the
  numeric columns: the script reads the cleaned dataset and does not handle
  missing amounts itself, so the numeric columns are reals; with NaN, pandas'
  \<open>sum\<close> would skip it and \<open>>= 0\<close> would drop its row, which the model does
  not show. The rounding of float64 sums: the properties that equate sums
  taken in different orders (C2, C7, C17, C18) hold in exact arithmetic; on
  float64 they hold up to rounding, which is not modelled. Streamlit's session internals beyond the widget values and the two
  rules \<open>Widgets\<close> takes from its documentation (widgets without a key are
  identified by their parameters; the state of a widget not drawn in a run is
  dropped). The imports and comments of lines 1-4, 8-10, 29-31, 39-41, 45 and 53-54
  contain no behaviour.
\<close>

subsection \<open>Properties of a session of reruns\<close>

text \<open>
  C14. Reruns before the first successful read fail with their load error and
  leave the cache empty (a failed call is not cached, so the next rerun reads
  the file again); the first successful read fixes the table for the rest of
  the process, and every later rerun renders from it, whatever the file holds
  by then.
\<close>

theorem primera_carga_fija_tabla:
  "sesion (map (\<lambda>(e, u). (Inl e, u)) errs @ (Inr t, u) # xs) None =
     (map (\<lambda>(e, u). Inl e) errs @ Inr (dashboard u (normalizar t))
        # map (\<lambda>(l, ui). Inr (dashboard ui (normalizar t))) xs, Some t)"
  by (induction errs) (auto simp: sesion_Some)

text \<open>
  C25. Over any sequence of page loads and widget interactions in a fresh
  process, the application stays coherent: while no read has succeeded, every
  run ends in its load error and the widgets stay at their defaults; once the
  cache holds a table, every output is either a load error from before the
  cache was filled or the charts the dashboard draws from that table under a
  widget state reachable by interactions, and the final widget state is
  reachable too.
\<close>

theorem sesion_app_coherente:
  assumes "sesion_app xs (estado_inicial, None) = Some (salidas, (ui, c))"
  shows "case c of None \<Rightarrow> ui = estado_inicial \<and> list_all isl salidas
         | Some t \<Rightarrow> alcanzable (normalizar t) ui \<and> list_all (salida_de t) salidas"
proof -
  have "app_valida (estado_inicial, None)" by (simp add: app_valida_def)
  from sesion_app_valida [OF this assms] show ?thesis
    by (cases c) (simp_all add: app_valida_def)
qed

theorem sesion_app_coherente_witness:
  "sesion_app [(Inl (LoadError ''Data/cleaned.parquet''), Recargar), (Inr tabla_cruda_ejemplo, Recargar),
               (Inr [], Interactuar (Radio 1))] (estado_inicial, None)
     = Some ([Inl (LoadError ''Data/cleaned.parquet''),
              Inr [LineaPolar [((''Norte'', ''Online''), 100)],
                   Lineas (Some ''Norte'') (Some ''Online'')
                     [((Enero, ''A''), 0), ((Febrero, ''A''), 0), ((Marzo, ''A''), 100),
                      ((Abril, ''A''), 0), ((Mayo, ''A''), 0)]],
              Inr [BarrasH [(''Ana'', 100)], Barras [(''No'', 100)], Dispersion [(12, 80, ''No'', 100)]]],
             (\<lparr>opcion_menu = 1, zonas_elegidas = None, indice_zona = 0, indice_canal = 0\<rparr>,
              Some tabla_cruda_ejemplo))
   \<and> alcanzable (normalizar tabla_cruda_ejemplo)
       \<lparr>opcion_menu = 1, zonas_elegidas = None, indice_zona = 0, indice_canal = 0\<rparr>
   \<and> salida_de tabla_cruda_ejemplo
       (Inr [BarrasH [(''Ana'', 100)], Barras [(''No'', 100)], Dispersion [(12, 80, ''No'', 100)]])"
proof -
  have h: "sesion_app [(Inl (LoadError ''Data/cleaned.parquet''), Recargar), (Inr tabla_cruda_ejemplo, Recargar),
               (Inr [], Interactuar (Radio 1))] (estado_inicial, None)
     = Some ([Inl (LoadError ''Data/cleaned.parquet''),
              Inr [LineaPolar [((''Norte'', ''Online''), 100)],
                   Lineas (Some ''Norte'') (Some ''Online'')
                     [((Enero, ''A''), 0), ((Febrero, ''A''), 0), ((Marzo, ''A''), 100),
                      ((Abril, ''A''), 0), ((Mayo, ''A''), 0)]],
              Inr [BarrasH [(''Ana'', 100)], Barras [(''No'', 100)], Dispersion [(12, 80, ''No'', 100)]]],
             (\<lparr>opcion_menu = 1, zonas_elegidas = None, indice_zona = 0, indice_canal = 0\<rparr>,
              Some tabla_cruda_ejemplo))"
    by code_simp
  show ?thesis using h sesion_app_coherente [OF h] by simp
qed

end
